theory Spec2Isabelle
  imports Main "HOL-Library.Word"
begin

unbundle bit_operations_syntax

section \<open>The document model read by \<open>compare_docs\<close>\<close>

text \<open>
  Modelled from the spec: the classes of \<open>doc/\<close> and \<open>app/doc.h\<close>, whose declarations
  are not among the sources. \<open>app/doc_diff.cpp\<close> reads two documents through their
  accessors. Each class is a record whose fields are the values of the accessors that
  \<open>compare_docs\<close> calls; a pointer that may be null is an \<open>option\<close>; of an enumeration
  only the equality of its values is used. Where a field name of \<open>DocDiff\<close> is also the
  name of an accessor, the accessor carries the name of its class as a prefix.
\<close>

type_synonym frame_t = nat
type_synonym tile_index = nat
type_synonym color_t = "32 word"

datatype PixelFormat = IMAGE_RGB | IMAGE_GRAYSCALE | IMAGE_INDEXED

datatype AniDir = FORWARD | REVERSE | PING_PONG | PING_PONG_REVERSE

datatype ObjectType = LayerImage | LayerGroup | LayerTilemap

record Size =
  size_w :: int
  size_h :: int

record Rect =
  rect_x :: int
  rect_y :: int
  rect_w :: int
  rect_h :: int

text \<open>An image: its bounds and its pixels, which only \<open>is_same_image\<close> reads.\<close>

record Image =
  image_bounds :: Rect
  image_pixels :: "color_t list"

text \<open>A palette: its colours, which only \<open>countDiff\<close> reads.\<close>

record Palette =
  palette_colors :: "color_t list"

text \<open>A colour space: its profile data, which only \<open>nearlyEqual\<close> reads.\<close>

record ColorSpace =
  colorSpace_data :: "8 word list"

record Tag =
  fromFrame :: frame_t
  toFrame :: frame_t
  tag_name :: string
  tag_color :: color_t
  aniDir :: AniDir
  repeat :: int

record Cel =
  cel_frame :: frame_t
  cel_bounds :: Rect
  cel_opacity :: int
  cel_image :: "Image option"

text \<open>
  A layer, seen through \<open>type()\<close>, \<open>name()\<close>, \<open>flags()\<close>, \<open>isImage()\<close>,
  \<open>isTilemap()\<close>, \<open>opacity()\<close> (read after the cast to \<open>LayerImage\<close>),
  \<open>tilesetIndex()\<close> (read after the cast to \<open>LayerTilemap\<close>) and \<open>cel(f)\<close>, which is
  null where the layer has no cel at frame \<open>f\<close>. Nothing is assumed on how the answers
  of \<open>isImage()\<close> and \<open>isTilemap()\<close> depend on \<open>type()\<close>.
\<close>

record Layer =
  layer_type :: ObjectType
  layer_name :: string
  layer_flags :: "32 word"
  isImage :: bool
  isTilemap :: bool
  layer_opacity :: int
  tilesetIndex :: nat
  cel :: "frame_t \<Rightarrow> Cel option"

text \<open>
  A tileset: \<open>grid().tileSize()\<close> and the tiles; \<open>size()\<close> counts them and \<open>get(ti)\<close>
  is the tile at index \<open>ti\<close>, which \<open>compare_docs\<close> reads below \<open>size()\<close> only.
\<close>

record Tileset =
  grid_tileSize :: Size
  tiles :: "Image list"

definition tileset_size :: "Tileset \<Rightarrow> tile_index" where
  "tileset_size t = length (tiles t)"

definition tileset_get :: "Tileset \<Rightarrow> tile_index \<Rightarrow> Image" where
  "tileset_get t ti = tiles t ! ti"

text \<open>
  A sprite. \<open>frlens\<close> holds the duration of each frame, \<open>sprite_tilesets\<close> is the
  pointer to the tilesets (null when the sprite has none), \<open>allLayers\<close> is the
  flattened list of layers.
\<close>

record Sprite =
  width :: int
  height :: int
  pixelFormat :: PixelFormat
  frlens :: "int list"
  sprite_tags :: "Tag list"
  getPalettes :: "Palette list"
  sprite_tilesets :: "Tileset list option"
  allLayers :: "Layer list"
  colorSpace :: ColorSpace
  sprite_gridBounds :: Rect

record Doc =
  sprite :: Sprite

text \<open>
  Modelled from the spec: the accessors of \<open>doc/sprite.h\<close>, which is not among the
  sources. The sprite has an ordered sequence of frames, each with a duration, an
  ordered sequence of tilesets and a flattened ordered sequence of layers.
  \<open>compare_docs\<close> reads \<open>frameDuration(f)\<close> below \<open>totalFrames()\<close> and
  \<open>tilesets()->get(i)\<close> below \<open>tilesets()->size()\<close> only.
\<close>

definition sprite_totalFrames :: "Sprite \<Rightarrow> frame_t" where
  "sprite_totalFrames s = length (frlens s)"

definition sprite_frameDuration :: "Sprite \<Rightarrow> frame_t \<Rightarrow> int" where
  "sprite_frameDuration s f = (if f < length (frlens s) then frlens s ! f else 0)"

definition hasTilesets :: "Sprite \<Rightarrow> bool" where
  "hasTilesets s = (sprite_tilesets s \<noteq> None)"

definition tilesets_get :: "Sprite \<Rightarrow> nat \<Rightarrow> Tileset" where
  "tilesets_get s i = the (sprite_tilesets s) ! i"

definition allLayersCount :: "Sprite \<Rightarrow> nat" where
  "allLayersCount s = length (allLayers s)"

text \<open>
  What \<open>compare_docs\<close> calls and the sources do not define: \<open>is_same_image\<close> of
  \<open>doc/primitives.h\<close>, \<open>Palette::countDiff\<close>, \<open>ColorSpace::nearlyEqual\<close> and the
  constant \<open>LayerFlags::PersistentFlagsMask\<close>. They are parameters of the model.
\<close>

record Externals =
  is_same_image :: "Image \<Rightarrow> Image \<Rightarrow> bool"
  countDiff :: "Palette \<Rightarrow> Palette \<Rightarrow> int"
  nearlyEqual :: "ColorSpace \<Rightarrow> ColorSpace \<Rightarrow> bool"
  PersistentFlagsMask :: "32 word"

section \<open>The result\<close>

record DocDiff =
  anything :: bool
  canvas :: bool
  totalFrames :: bool
  frameDuration :: bool
  tags :: bool
  palettes :: bool
  tilesets :: bool
  layers :: bool
  cels :: bool
  images :: bool
  colorProfiles :: bool
  gridBounds :: bool

text \<open>
  Modelled from the spec: the constructor of \<open>DocDiff\<close> (\<open>app/doc_diff.h\<close> is not among
  the sources); a freshly constructed result has every flag false.
\<close>

definition DocDiff_new :: DocDiff where
  "DocDiff_new = \<lparr> anything = False, canvas = False, totalFrames = False,
     frameDuration = False, tags = False, palettes = False, tilesets = False,
     layers = False, cels = False, images = False, colorProfiles = False,
     gridBounds = False \<rparr>"

section \<open>\<open>compare_docs\<close>, one definition for each block of the function\<close>

subsection \<open>Compare sprite specs\<close>

definition compare_specs :: "Doc \<Rightarrow> Doc \<Rightarrow> DocDiff \<Rightarrow> DocDiff" where
  "compare_specs a b diff =
     (if width (sprite a) \<noteq> width (sprite b) \<or>
         height (sprite a) \<noteq> height (sprite b) \<or>
         pixelFormat (sprite a) \<noteq> pixelFormat (sprite b)
      then diff\<lparr>anything := True, canvas := True\<rparr>
      else diff)"

subsection \<open>Frames\<close>

text \<open>
  The loop over \<open>f\<close>. The result is the value of \<open>f\<close> when the loop is left (by
  \<open>break\<close> or because its condition fails) and the flags then.
\<close>

function frames_loop :: "Doc \<Rightarrow> Doc \<Rightarrow> frame_t \<Rightarrow> DocDiff \<Rightarrow> frame_t \<times> DocDiff" where
  "frames_loop a b f diff =
     (if f < sprite_totalFrames (sprite a) then
        if sprite_frameDuration (sprite a) f \<noteq> sprite_frameDuration (sprite b) f
        then (f, diff\<lparr>anything := True, frameDuration := True\<rparr>)
        else frames_loop a b (f + 1) diff
      else (f, diff))"
  by pat_completeness auto
termination
  by (relation "measure (\<lambda>(a, b, f, diff). sprite_totalFrames (sprite a) - f)") auto

declare frames_loop.simps [simp del]

definition compare_frames :: "Doc \<Rightarrow> Doc \<Rightarrow> DocDiff \<Rightarrow> DocDiff" where
  "compare_frames a b diff =
     (if sprite_totalFrames (sprite a) \<noteq> sprite_totalFrames (sprite b)
      then diff\<lparr>anything := True, totalFrames := True\<rparr>
      else snd (frames_loop a b 0 diff))"

subsection \<open>Tags\<close>

text \<open>The two iterators advance together; the loop has no \<open>break\<close>.\<close>

definition tag_differs :: "Tag \<Rightarrow> Tag \<Rightarrow> bool" where
  "tag_differs aTag bTag =
     (fromFrame aTag \<noteq> fromFrame bTag \<or>
      toFrame aTag \<noteq> toFrame bTag \<or>
      tag_name aTag \<noteq> tag_name bTag \<or>
      tag_color aTag \<noteq> tag_color bTag \<or>
      aniDir aTag \<noteq> aniDir bTag \<or>
      repeat aTag \<noteq> repeat bTag)"

fun tags_loop :: "Tag list \<Rightarrow> Tag list \<Rightarrow> DocDiff \<Rightarrow> DocDiff" where
  "tags_loop (aTag # aIt) (bTag # bIt) diff =
     tags_loop aIt bIt
       (if tag_differs aTag bTag then diff\<lparr>anything := True, tags := True\<rparr> else diff)"
| "tags_loop aIt bIt diff = diff"

definition compare_tags :: "Doc \<Rightarrow> Doc \<Rightarrow> DocDiff \<Rightarrow> DocDiff" where
  "compare_tags a b diff =
     (if length (sprite_tags (sprite a)) \<noteq> length (sprite_tags (sprite b))
      then diff\<lparr>anything := True, tags := True\<rparr>
      else tags_loop (sprite_tags (sprite a)) (sprite_tags (sprite b)) diff)"

subsection \<open>Palettes\<close>

text \<open>The loop is entered when the sizes differ, and only then.\<close>

fun palettes_loop :: "Externals \<Rightarrow> Palette list \<Rightarrow> Palette list \<Rightarrow> DocDiff \<Rightarrow> DocDiff" where
  "palettes_loop E (aPal # aIt) (bPal # bIt) diff =
     (if countDiff E aPal bPal \<noteq> 0
      then diff\<lparr>anything := True, palettes := True\<rparr>
      else palettes_loop E aIt bIt diff)"
| "palettes_loop E aIt bIt diff = diff"

definition compare_palettes :: "Externals \<Rightarrow> Doc \<Rightarrow> Doc \<Rightarrow> DocDiff \<Rightarrow> DocDiff" where
  "compare_palettes E a b diff =
     (if length (getPalettes (sprite a)) \<noteq> length (getPalettes (sprite b))
      then palettes_loop E (getPalettes (sprite a)) (getPalettes (sprite b)) diff
      else diff)"

subsection \<open>Compare tilesets\<close>

text \<open>
  The loop over \<open>ti\<close>. The result is the value of \<open>ti\<close> when the loop is left,
  whether it was left by \<open>goto done\<close>, and the flags then.
\<close>

function tiles_loop ::
  "Externals \<Rightarrow> Tileset \<Rightarrow> Tileset \<Rightarrow> tile_index \<Rightarrow> DocDiff \<Rightarrow> tile_index \<times> bool \<times> DocDiff" where
  "tiles_loop E aTileset bTileset ti diff =
     (if ti < tileset_size aTileset then
        if \<not> is_same_image E (tileset_get aTileset ti) (tileset_get bTileset ti)
        then (ti, True, diff\<lparr>anything := True, tilesets := True\<rparr>)
        else tiles_loop E aTileset bTileset (ti + 1) diff
      else (ti, False, diff))"
  by pat_completeness auto
termination
  by (relation "measure (\<lambda>(E, aTileset, bTileset, ti, diff). tileset_size aTileset - ti)") auto

declare tiles_loop.simps [simp del]

text \<open>The constants \<open>aTilesetSize\<close> and \<open>bTilesetSize\<close>.\<close>

definition TilesetSize :: "Doc \<Rightarrow> tile_index" where
  "TilesetSize a =
     (if hasTilesets (sprite a) then length (the (sprite_tilesets (sprite a))) else 0)"

text \<open>The condition of the \<open>break\<close> in the loop over \<open>i\<close>.\<close>

definition tileset_differs :: "Tileset \<Rightarrow> Tileset \<Rightarrow> bool" where
  "tileset_differs aTileset bTileset =
     (grid_tileSize aTileset \<noteq> grid_tileSize bTileset \<or>
      tileset_size aTileset \<noteq> tileset_size bTileset)"

text \<open>
  The loop over \<open>i\<close>, left by \<open>break\<close>, by the \<open>goto done\<close> of the inner loop, or
  because its condition fails. The result is the value of \<open>i\<close> and the flags at the
  label \<open>done\<close>.
\<close>

function tilesets_loop :: "Externals \<Rightarrow> Doc \<Rightarrow> Doc \<Rightarrow> nat \<Rightarrow> DocDiff \<Rightarrow> nat \<times> DocDiff" where
  "tilesets_loop E a b i diff =
     (if i < TilesetSize a then
        let aTileset = tilesets_get (sprite a) i;
            bTileset = tilesets_get (sprite b) i
        in if tileset_differs aTileset bTileset
           then (i, diff\<lparr>anything := True, tilesets := True\<rparr>)
           else case tiles_loop E aTileset bTileset 0 diff of
                  (ti, done, diff') \<Rightarrow>
                    if done then (i, diff') else tilesets_loop E a b (i + 1) diff'
      else (i, diff))"
  by pat_completeness auto
termination
  by (relation "measure (\<lambda>(E, a, b, i, diff). TilesetSize a - i)") auto

declare tilesets_loop.simps [simp del]

definition compare_tilesets :: "Externals \<Rightarrow> Doc \<Rightarrow> Doc \<Rightarrow> DocDiff \<Rightarrow> DocDiff" where
  "compare_tilesets E a b diff =
     (if TilesetSize a \<noteq> TilesetSize b
      then diff\<lparr>anything := True, tilesets := True\<rparr>
      else snd (tilesets_loop E a b 0 diff))"

subsection \<open>Compare layers\<close>

text \<open>The condition under which the loop over the layers is left by \<open>break\<close>.\<close>

definition layer_differs :: "Externals \<Rightarrow> Layer \<Rightarrow> Layer \<Rightarrow> bool" where
  "layer_differs E aLay bLay =
     (layer_type aLay \<noteq> layer_type bLay \<or>
      layer_name aLay \<noteq> layer_name bLay \<or>
      (layer_flags aLay AND PersistentFlagsMask E) \<noteq> (layer_flags bLay AND PersistentFlagsMask E) \<or>
      (isImage aLay \<and> isImage bLay \<and> layer_opacity aLay \<noteq> layer_opacity bLay) \<or>
      (isTilemap aLay \<and> isTilemap bLay \<and> tilesetIndex aLay \<noteq> tilesetIndex bLay))"

text \<open>
  The body of the loop over \<open>f\<close>, for the two cels of one frame. The last test of
  the source compares the two image pointers where at least one is null: they differ
  when exactly one is null.
\<close>

fun compare_cel :: "Externals \<Rightarrow> Cel option \<Rightarrow> Cel option \<Rightarrow> DocDiff \<Rightarrow> DocDiff" where
  "compare_cel E None (Some bCel) diff = diff\<lparr>anything := True, cels := True\<rparr>"
| "compare_cel E (Some aCel) None diff = diff\<lparr>anything := True, cels := True\<rparr>"
| "compare_cel E (Some aCel) (Some bCel) diff =
     (let diff1 =
            (if cel_frame aCel = cel_frame bCel \<or>
                cel_bounds aCel = cel_bounds bCel \<or>
                cel_opacity aCel = cel_opacity bCel
             then diff\<lparr>anything := True, cels := True\<rparr>
             else diff)
      in case (cel_image aCel, cel_image bCel) of
           (Some aImage, Some bImage) \<Rightarrow>
             (if image_bounds aImage \<noteq> image_bounds bImage \<or> \<not> is_same_image E aImage bImage
              then diff1\<lparr>anything := True, images := True\<rparr>
              else diff1)
         | (None, None) \<Rightarrow> diff1
         | (aImage, bImage) \<Rightarrow> diff1\<lparr>anything := True, images := True\<rparr>)"
| "compare_cel E None None diff = diff"

text \<open>
  The loop over \<open>f\<close> for one pair of layers; it has no \<open>break\<close>. The result is the
  value of \<open>f\<close> when the loop is left and the flags then.
\<close>

function cels_loop ::
  "Externals \<Rightarrow> Doc \<Rightarrow> Layer \<Rightarrow> Layer \<Rightarrow> frame_t \<Rightarrow> DocDiff \<Rightarrow> frame_t \<times> DocDiff" where
  "cels_loop E a aLay bLay f diff =
     (if f < sprite_totalFrames (sprite a)
      then cels_loop E a aLay bLay (f + 1) (compare_cel E (cel aLay f) (cel bLay f) diff)
      else (f, diff))"
  by pat_completeness auto
termination
  by (relation "measure (\<lambda>(E, a, aLay, bLay, f, diff). sprite_totalFrames (sprite a) - f)") auto

declare cels_loop.simps [simp del]

text \<open>
  The loop over the two lists of layers. The result holds the two iterators when the
  loop is left (at \<open>break\<close> they still point at the pair that differs) and the flags
  then.
\<close>

fun layers_loop ::
  "Externals \<Rightarrow> Doc \<Rightarrow> Layer list \<Rightarrow> Layer list \<Rightarrow> DocDiff \<Rightarrow>
   (Layer list \<times> Layer list) \<times> DocDiff" where
  "layers_loop E a (aLay # aIt) (bLay # bIt) diff =
     (if layer_differs E aLay bLay
      then ((aLay # aIt, bLay # bIt), diff\<lparr>anything := True, layers := True\<rparr>)
      else layers_loop E a aIt bIt
             (if totalFrames diff then snd (cels_loop E a aLay bLay 0 diff) else diff))"
| "layers_loop E a aIt bIt diff = ((aIt, bIt), diff)"

definition compare_layers :: "Externals \<Rightarrow> Doc \<Rightarrow> Doc \<Rightarrow> DocDiff \<Rightarrow> DocDiff" where
  "compare_layers E a b diff =
     (if allLayersCount (sprite a) \<noteq> allLayersCount (sprite b)
      then diff\<lparr>anything := True, layers := True\<rparr>
      else snd (layers_loop E a (allLayers (sprite a)) (allLayers (sprite b)) diff))"

subsection \<open>Compare color spaces\<close>

definition compare_colorSpaces :: "Externals \<Rightarrow> Doc \<Rightarrow> Doc \<Rightarrow> DocDiff \<Rightarrow> DocDiff" where
  "compare_colorSpaces E a b diff =
     (if \<not> nearlyEqual E (colorSpace (sprite a)) (colorSpace (sprite b))
      then diff\<lparr>anything := True, colorProfiles := True\<rparr>
      else diff)"

subsection \<open>Compare grid bounds\<close>

definition compare_gridBounds :: "Doc \<Rightarrow> Doc \<Rightarrow> DocDiff \<Rightarrow> DocDiff" where
  "compare_gridBounds a b diff =
     (if sprite_gridBounds (sprite a) \<noteq> sprite_gridBounds (sprite b)
      then diff\<lparr>anything := True, gridBounds := True\<rparr>
      else diff)"

subsection \<open>The whole function\<close>

definition compare_docs :: "Externals \<Rightarrow> Doc \<Rightarrow> Doc \<Rightarrow> DocDiff" where
  "compare_docs E a b =
     (let diff = DocDiff_new;
          diff = compare_specs a b diff;
          diff = compare_frames a b diff;
          diff = compare_tags a b diff;
          diff = compare_palettes E a b diff;
          diff = compare_tilesets E a b diff;
          diff = compare_layers E a b diff;
          diff = compare_colorSpaces E a b diff;
          diff = compare_gridBounds a b diff
      in diff)"

section \<open>Auxiliary definitions\<close>

text \<open>
  The invariant of the flags: \<open>anything\<close> is set exactly when another flag is.
\<close>

definition flags_inv :: "DocDiff \<Rightarrow> bool" where
  "flags_inv d =
     (anything d = (canvas d \<or> totalFrames d \<or> frameDuration d \<or> tags d \<or> palettes d \<or>
        tilesets d \<or> layers d \<or> cels d \<or> images d \<or> colorProfiles d \<or> gridBounds d))"

text \<open>
  The flags after the block of the layers: those before it, with \<open>layers\<close>, \<open>cels\<close>
  and \<open>images\<close> raised where \<open>l\<close>, \<open>c\<close> and \<open>m\<close> say so, and \<open>anything\<close> with them.
\<close>

definition raised :: "bool \<Rightarrow> bool \<Rightarrow> bool \<Rightarrow> DocDiff \<Rightarrow> DocDiff" where
  "raised l c m d =
     d\<lparr>anything := anything d \<or> l \<or> c \<or> m, layers := layers d \<or> l,
       cels := cels d \<or> c, images := images d \<or> m\<rparr>"

section \<open>Example documents\<close>

text \<open>
  An instance of the parameters: images and colour spaces are compared by equality,
  \<open>countDiff\<close> counts the positions at which two palettes differ.
\<close>

definition exact_externals :: Externals where
  "exact_externals =
     \<lparr> is_same_image = (\<lambda>aImage bImage. aImage = bImage),
       countDiff = (\<lambda>aPal bPal.
         int (length (filter (\<lambda>(x, y). x \<noteq> y) (zip (palette_colors aPal) (palette_colors bPal)))) +
         \<bar>int (length (palette_colors aPal)) - int (length (palette_colors bPal))\<bar>),
       nearlyEqual = (\<lambda>aSpace bSpace. aSpace = bSpace),
       PersistentFlagsMask = 0xFFFF \<rparr>"

definition rect_2x1 :: Rect where
  "rect_2x1 = \<lparr> rect_x = 0, rect_y = 0, rect_w = 2, rect_h = 1 \<rparr>"

definition image_red :: Image where
  "image_red = \<lparr> image_bounds = rect_2x1, image_pixels = [0xFF0000FF, 0xFF0000FF] \<rparr>"

definition image_blue :: Image where
  "image_blue = \<lparr> image_bounds = rect_2x1, image_pixels = [0xFFFF0000, 0xFFFF0000] \<rparr>"

definition cel_1 :: Cel where
  "cel_1 = \<lparr> cel_frame = 1, cel_bounds = rect_2x1, cel_opacity = 255, cel_image = Some image_red \<rparr>"

definition layer_empty :: Layer where
  "layer_empty =
     \<lparr> layer_type = LayerImage, layer_name = ''Layer 1'', layer_flags = 3, isImage = True,
       isTilemap = False, layer_opacity = 255, tilesetIndex = 0, cel = (\<lambda>f. None) \<rparr>"

definition layer_cel_1 :: Layer where
  "layer_cel_1 = layer_empty\<lparr> cel := (\<lambda>f. if f = 1 then Some cel_1 else None) \<rparr>"

definition doc_1 :: Doc where
  "doc_1 =
     \<lparr> sprite =
         \<lparr> width = 2, height = 1, pixelFormat = IMAGE_RGB, frlens = [100],
           sprite_tags = [],
           getPalettes = [\<lparr> palette_colors = [0, 0xFFFFFFFF] \<rparr>],
           sprite_tilesets =
             Some [\<lparr> grid_tileSize = \<lparr> size_w = 2, size_h = 1 \<rparr>, tiles = [image_red, image_blue] \<rparr>],
           allLayers = [layer_empty],
           colorSpace = \<lparr> colorSpace_data = [] \<rparr>,
           sprite_gridBounds = rect_2x1 \<rparr> \<rparr>"

definition doc_2 :: Doc where
  "doc_2 = doc_1\<lparr> sprite := (sprite doc_1)\<lparr> frlens := [100, 100], allLayers := [layer_cel_1] \<rparr> \<rparr>"

definition doc_1_recoloured :: Doc where
  "doc_1_recoloured =
     doc_1\<lparr> sprite := (sprite doc_1)\<lparr> getPalettes := [\<lparr> palette_colors = [1, 2] \<rparr>] \<rparr> \<rparr>"

definition doc_1_two_palettes :: Doc where
  "doc_1_two_palettes =
     doc_1\<lparr> sprite := (sprite doc_1)\<lparr> getPalettes :=
       [\<lparr> palette_colors = [0, 0xFFFFFFFF] \<rparr>, \<lparr> palette_colors = [1, 2] \<rparr>] \<rparr> \<rparr>"

definition doc_2_no_cel :: Doc where
  "doc_2_no_cel = doc_2\<lparr> sprite := (sprite doc_2)\<lparr> allLayers := [layer_empty] \<rparr> \<rparr>"

definition doc_2_slower :: Doc where
  "doc_2_slower = doc_2\<lparr> sprite := (sprite doc_2)\<lparr> frlens := [100, 200] \<rparr> \<rparr>"

definition cel_1_moved :: Cel where
  "cel_1_moved =
     cel_1\<lparr> cel_bounds := \<lparr> rect_x = 5, rect_y = 5, rect_w = 2, rect_h = 1 \<rparr>, cel_opacity := 128 \<rparr>"



definition doc_1_red_tiles :: Doc where
  "doc_1_red_tiles =
     doc_1\<lparr> sprite := (sprite doc_1)\<lparr> sprite_tilesets :=
       Some [\<lparr> grid_tileSize = \<lparr> size_w = 2, size_h = 1 \<rparr>, tiles = [image_red, image_red] \<rparr>] \<rparr> \<rparr>"

definition doc_1_no_tilesets :: Doc where
  "doc_1_no_tilesets = doc_1\<lparr> sprite := (sprite doc_1)\<lparr> sprite_tilesets := None \<rparr> \<rparr>"

definition doc_two_tilesets :: Doc where
  "doc_two_tilesets =
     doc_1\<lparr> sprite := (sprite doc_1)\<lparr> sprite_tilesets :=
       Some [\<lparr> grid_tileSize = \<lparr> size_w = 2, size_h = 1 \<rparr>, tiles = [image_red, image_blue] \<rparr>,
             \<lparr> grid_tileSize = \<lparr> size_w = 2, size_h = 1 \<rparr>, tiles = [image_blue] \<rparr>] \<rparr> \<rparr>"

definition doc_two_tilesets_grown :: Doc where
  "doc_two_tilesets_grown =
     doc_1\<lparr> sprite := (sprite doc_1)\<lparr> sprite_tilesets :=
       Some [\<lparr> grid_tileSize = \<lparr> size_w = 2, size_h = 1 \<rparr>, tiles = [image_red, image_blue] \<rparr>,
             \<lparr> grid_tileSize = \<lparr> size_w = 2, size_h = 1 \<rparr>, tiles = [image_blue, image_red] \<rparr>] \<rparr> \<rparr>"

definition layer_cel_1_moved :: Layer where
  "layer_cel_1_moved = layer_empty\<lparr> cel := (\<lambda>f. if f = 1 then Some cel_1_moved else None) \<rparr>"

definition doc_3_moved :: Doc where
  "doc_3_moved =
     doc_1\<lparr> sprite := (sprite doc_1)\<lparr> frlens := [100, 100, 100],
       allLayers := [layer_cel_1_moved] \<rparr> \<rparr>"

section \<open>The loops\<close>

subsection \<open>The loop over the frames\<close>

lemma frames_loop_snd:
  "snd (frames_loop a b f d) =
     (if \<exists>g. f \<le> g \<and> g < sprite_totalFrames (sprite a) \<and>
            sprite_frameDuration (sprite a) g \<noteq> sprite_frameDuration (sprite b) g
      then d\<lparr>anything := True, frameDuration := True\<rparr> else d)"
proof (induction a b f d rule: frames_loop.induct)
  case (1 a b f diff)
  show ?case
  proof (cases "f < sprite_totalFrames (sprite a)")
    case False
    then show ?thesis by (subst frames_loop.simps) auto
  next
    case lt: True
    show ?thesis
    proof (cases "sprite_frameDuration (sprite a) f \<noteq> sprite_frameDuration (sprite b) f")
      case True
      with lt show ?thesis by (subst frames_loop.simps) auto
    next
      case False
      have "(\<exists>g. f \<le> g \<and> g < sprite_totalFrames (sprite a) \<and>
            sprite_frameDuration (sprite a) g \<noteq> sprite_frameDuration (sprite b) g) =
            (\<exists>g. f + 1 \<le> g \<and> g < sprite_totalFrames (sprite a) \<and>
            sprite_frameDuration (sprite a) g \<noteq> sprite_frameDuration (sprite b) g)"
        using False by (metis Suc_eq_plus1 Suc_leI le_neq_implies_less Suc_leD)
      with lt False 1 show ?thesis by (subst frames_loop.simps) simp
    qed
  qed
qed

lemma frames_loop_break:
  "f \<le> g \<Longrightarrow> g < sprite_totalFrames (sprite a) \<Longrightarrow>
   sprite_frameDuration (sprite a) g \<noteq> sprite_frameDuration (sprite b) g \<Longrightarrow>
   (\<forall>h. f \<le> h \<and> h < g \<longrightarrow> sprite_frameDuration (sprite a) h = sprite_frameDuration (sprite b) h) \<Longrightarrow>
   frames_loop a b f d = (g, d\<lparr>anything := True, frameDuration := True\<rparr>)"
proof (induction a b f d rule: frames_loop.induct)
  case (1 a b f diff)
  show ?case
  proof (cases "f = g")
    case True
    with 1(3,4) show ?thesis by (subst frames_loop.simps) simp
  next
    case False
    with 1(2) have lt: "f < g" by simp
    with 1(5) have same: "sprite_frameDuration (sprite a) f = sprite_frameDuration (sprite b) f"
      by simp
    from lt 1(3) have inrange: "f < sprite_totalFrames (sprite a)" by simp
    have "frames_loop a b (f + 1) diff = (g, diff\<lparr>anything := True, frameDuration := True\<rparr>)"
      using 1(1)[OF inrange _ _ 1(3) 1(4)] same lt 1(5) by simp
    with inrange same show ?thesis by (subst frames_loop.simps) simp
  qed
qed

lemma frames_loop_done:
  "(\<forall>h. f \<le> h \<and> h < sprite_totalFrames (sprite a) \<longrightarrow>
        sprite_frameDuration (sprite a) h = sprite_frameDuration (sprite b) h) \<Longrightarrow>
   frames_loop a b f d = (max f (sprite_totalFrames (sprite a)), d)"
proof (induction a b f d rule: frames_loop.induct)
  case (1 a b f diff)
  show ?case
  proof (cases "f < sprite_totalFrames (sprite a)")
    case False
    then show ?thesis by (subst frames_loop.simps) (simp add: max_def)
  next
    case True
    with 1(2) have same: "sprite_frameDuration (sprite a) f = sprite_frameDuration (sprite b) f"
      by simp
    have "frames_loop a b (f + 1) diff = (max (f + 1) (sprite_totalFrames (sprite a)), diff)"
      using 1(1)[OF True] same 1(2) by simp
    with True same show ?thesis by (subst frames_loop.simps) (simp add: max_def)
  qed
qed

subsection \<open>The loops over the tags and over the palettes\<close>

lemma tags_loop_eq:
  "tags_loop xs ys d =
     (if \<exists>p \<in> set (zip xs ys). tag_differs (fst p) (snd p)
      then d\<lparr>anything := True, tags := True\<rparr> else d)"
  by (induction xs ys d rule: tags_loop.induct) auto

lemma palettes_loop_eq:
  "palettes_loop E xs ys d =
     (if \<exists>p \<in> set (zip xs ys). countDiff E (fst p) (snd p) \<noteq> 0
      then d\<lparr>anything := True, palettes := True\<rparr> else d)"
  by (induction E xs ys d rule: palettes_loop.induct) auto

subsection \<open>The loops over the tilesets and their tiles\<close>

lemma tiles_loop_goto:
  "ti \<le> tj \<Longrightarrow> tj < tileset_size s \<Longrightarrow>
   \<not> is_same_image E (tileset_get s tj) (tileset_get t tj) \<Longrightarrow>
   (\<forall>h. ti \<le> h \<and> h < tj \<longrightarrow> is_same_image E (tileset_get s h) (tileset_get t h)) \<Longrightarrow>
   tiles_loop E s t ti d = (tj, True, d\<lparr>anything := True, tilesets := True\<rparr>)"
proof (induction E s t ti d rule: tiles_loop.induct)
  case (1 E s t ti diff)
  show ?case
  proof (cases "ti = tj")
    case True
    with 1(3,4) show ?thesis by (subst tiles_loop.simps) simp
  next
    case False
    with 1(2) have lt: "ti < tj" by simp
    with 1(5) have same: "is_same_image E (tileset_get s ti) (tileset_get t ti)"
      by simp
    from lt 1(3) have inrange: "ti < tileset_size s" by simp
    have "tiles_loop E s t (ti + 1) diff = (tj, True, diff\<lparr>anything := True, tilesets := True\<rparr>)"
      using 1(1)[OF inrange _ _ 1(3) 1(4)] same lt 1(5) by simp
    with inrange same show ?thesis by (subst tiles_loop.simps) simp
  qed
qed

lemma tiles_loop_done:
  "(\<forall>h. ti \<le> h \<and> h < tileset_size s \<longrightarrow> is_same_image E (tileset_get s h) (tileset_get t h)) \<Longrightarrow>
   tiles_loop E s t ti d = (max ti (tileset_size s), False, d)"
proof (induction E s t ti d rule: tiles_loop.induct)
  case (1 E s t ti diff)
  show ?case
  proof (cases "ti < tileset_size s")
    case False
    then show ?thesis by (subst tiles_loop.simps) (simp add: max_def)
  next
    case True
    with 1(2) have same: "is_same_image E (tileset_get s ti) (tileset_get t ti)"
      by simp
    have "tiles_loop E s t (ti + 1) diff = (max (ti + 1) (tileset_size s), False, diff)"
      using 1(1)[OF True] same 1(2) by simp
    with True same show ?thesis by (subst tiles_loop.simps) (simp add: max_def)
  qed
qed

lemma tiles_loop_found:
  "fst (snd (tiles_loop E s t ti d)) =
     (\<exists>h. ti \<le> h \<and> h < tileset_size s \<and> \<not> is_same_image E (tileset_get s h) (tileset_get t h))"
proof (cases "\<exists>h. ti \<le> h \<and> h < tileset_size s \<and> \<not> is_same_image E (tileset_get s h) (tileset_get t h)")
  case True
  define P where "P h \<longleftrightarrow> ti \<le> h \<and> h < tileset_size s \<and>
    \<not> is_same_image E (tileset_get s h) (tileset_get t h)" for h
  from True have ex: "\<exists>h. P h" by (simp add: P_def)
  define tj where "tj = (LEAST h. P h)"
  have Ptj: "P tj" unfolding tj_def using ex by (auto intro: LeastI)
  have least: "\<And>h. h < tj \<Longrightarrow> \<not> P h" unfolding tj_def by (rule not_less_Least)
  have "tiles_loop E s t ti d = (tj, True, d\<lparr>anything := True, tilesets := True\<rparr>)"
  proof (rule tiles_loop_goto)
    show "ti \<le> tj" "tj < tileset_size s"
      "\<not> is_same_image E (tileset_get s tj) (tileset_get t tj)"
      using Ptj by (simp_all add: P_def)
    show "\<forall>h. ti \<le> h \<and> h < tj \<longrightarrow> is_same_image E (tileset_get s h) (tileset_get t h)"
      using least Ptj by (auto simp: P_def)
  qed
  with True show ?thesis by simp
next
  case False
  then have "tiles_loop E s t ti d = (max ti (tileset_size s), False, d)"
    by (intro tiles_loop_done) blast
  with False show ?thesis by simp
qed

lemma tiles_loop_flags:
  "snd (snd (tiles_loop E s t ti d)) =
     (if fst (snd (tiles_loop E s t ti d)) then d\<lparr>anything := True, tilesets := True\<rparr> else d)"
proof (induction E s t ti d rule: tiles_loop.induct)
  case (1 E s t ti diff)
  show ?case
  proof (cases "ti < tileset_size s")
    case False
    then show ?thesis by (subst (1 2) tiles_loop.simps) simp
  next
    case True
    with 1 show ?thesis by (subst (1 2) tiles_loop.simps) simp
  qed
qed

lemma tilesets_loop_same:
  assumes "i < TilesetSize a"
    and "\<not> tileset_differs (tilesets_get (sprite a) i) (tilesets_get (sprite b) i)"
    and "\<forall>ti < tileset_size (tilesets_get (sprite a) i).
           is_same_image E (tileset_get (tilesets_get (sprite a) i) ti)
                           (tileset_get (tilesets_get (sprite b) i) ti)"
  shows "tilesets_loop E a b i d = tilesets_loop E a b (i + 1) d"
proof -
  have "tiles_loop E (tilesets_get (sprite a) i) (tilesets_get (sprite b) i) 0 d =
        (max 0 (tileset_size (tilesets_get (sprite a) i)), False, d)"
    using assms(3) by (intro tiles_loop_done) simp
  with assms(1,2) show ?thesis
    by (subst tilesets_loop.simps) (simp add: Let_def)
qed

lemma tilesets_loop_leave:
  assumes "i < TilesetSize a"
    and "tileset_differs (tilesets_get (sprite a) i) (tilesets_get (sprite b) i) \<or>
         (\<exists>ti < tileset_size (tilesets_get (sprite a) i).
           \<not> is_same_image E (tileset_get (tilesets_get (sprite a) i) ti)
                             (tileset_get (tilesets_get (sprite b) i) ti))"
  shows "tilesets_loop E a b i d = (i, d\<lparr>anything := True, tilesets := True\<rparr>)"
proof (cases "tileset_differs (tilesets_get (sprite a) i) (tilesets_get (sprite b) i)")
  case True
  with assms(1) show ?thesis
    by (subst tilesets_loop.simps) (simp add: Let_def)
next
  case False
  let ?t = "tiles_loop E (tilesets_get (sprite a) i) (tilesets_get (sprite b) i) 0 d"
  from False assms(2) have found: "fst (snd ?t)"
    by (simp add: tiles_loop_found)
  then have "snd (snd ?t) = d\<lparr>anything := True, tilesets := True\<rparr>"
    by (subst tiles_loop_flags) simp
  with found obtain ti where "?t = (ti, True, d\<lparr>anything := True, tilesets := True\<rparr>)"
    by (metis prod.collapse)
  with assms(1) False show ?thesis
    by (subst tilesets_loop.simps) (simp add: Let_def)
qed

lemma tilesets_loop_first:
  assumes "\<forall>j. i \<le> j \<and> j < k \<longrightarrow>
             \<not> tileset_differs (tilesets_get (sprite a) j) (tilesets_get (sprite b) j) \<and>
             (\<forall>ti < tileset_size (tilesets_get (sprite a) j).
                is_same_image E (tileset_get (tilesets_get (sprite a) j) ti)
                                (tileset_get (tilesets_get (sprite b) j) ti))"
    and "i \<le> k" and "k \<le> TilesetSize a"
  shows "tilesets_loop E a b i d = tilesets_loop E a b k d"
  using assms
proof (induction "k - i" arbitrary: i)
  case 0
  then show ?case by simp
next
  case (Suc n)
  then have lt: "i < k" by simp
  with Suc.prems have "i < TilesetSize a" by simp
  moreover from Suc.prems(1) lt have
    "\<not> tileset_differs (tilesets_get (sprite a) i) (tilesets_get (sprite b) i)"
    "\<forall>ti < tileset_size (tilesets_get (sprite a) i).
        is_same_image E (tileset_get (tilesets_get (sprite a) i) ti)
                        (tileset_get (tilesets_get (sprite b) i) ti)"
    by simp_all
  ultimately have "tilesets_loop E a b i d = tilesets_loop E a b (i + 1) d"
    by (rule tilesets_loop_same)
  also have "\<dots> = tilesets_loop E a b k d"
  proof (rule Suc.hyps(1))
    show "n = k - (i + 1)" using Suc.hyps(2) by simp
    show "\<forall>j. i + 1 \<le> j \<and> j < k \<longrightarrow>
             \<not> tileset_differs (tilesets_get (sprite a) j) (tilesets_get (sprite b) j) \<and>
             (\<forall>ti < tileset_size (tilesets_get (sprite a) j).
                is_same_image E (tileset_get (tilesets_get (sprite a) j) ti)
                                (tileset_get (tilesets_get (sprite b) j) ti))"
      using Suc.prems(1) by simp
    show "i + 1 \<le> k" using lt by simp
    show "k \<le> TilesetSize a" by (rule Suc.prems(3))
  qed
  finally show ?case .
qed

lemma tilesets_loop_end: "TilesetSize a \<le> i \<Longrightarrow> tilesets_loop E a b i d = (i, d)"
  by (subst tilesets_loop.simps) simp

lemma tilesets_loop_shape:
  "snd (tilesets_loop E a b i d) = d \<or>
   snd (tilesets_loop E a b i d) = d\<lparr>anything := True, tilesets := True\<rparr>"
proof (induction "TilesetSize a - i" arbitrary: i)
  case 0
  then show ?case by (simp add: tilesets_loop_end)
next
  case (Suc n)
  then have lt: "i < TilesetSize a" by simp
  show ?case
  proof (cases "tileset_differs (tilesets_get (sprite a) i) (tilesets_get (sprite b) i) \<or>
         (\<exists>ti < tileset_size (tilesets_get (sprite a) i).
           \<not> is_same_image E (tileset_get (tilesets_get (sprite a) i) ti)
                             (tileset_get (tilesets_get (sprite b) i) ti))")
    case True
    with lt have "tilesets_loop E a b i d = (i, d\<lparr>anything := True, tilesets := True\<rparr>)"
      by (rule tilesets_loop_leave)
    then show ?thesis by simp
  next
    case False
    with lt have "tilesets_loop E a b i d = tilesets_loop E a b (i + 1) d"
      by (intro tilesets_loop_same) simp_all
    moreover have "n = TilesetSize a - (i + 1)"
      using Suc.hyps(2) by simp
    ultimately show ?thesis
      using Suc.hyps(1)[of "i + 1"] by simp
  qed
qed

subsection \<open>The loops over the layers and their cels\<close>

lemma raised_raised: "raised l c m (raised l' c' m' d) = raised (l \<or> l') (c \<or> c') (m \<or> m') d"
  by (cases d) (auto simp: raised_def)

lemma raised_none: "raised False False False d = d"
  by (simp add: raised_def)

lemma raised_fields:
  "canvas (raised l c m d) = canvas d"
  "totalFrames (raised l c m d) = totalFrames d"
  "frameDuration (raised l c m d) = frameDuration d"
  "tags (raised l c m d) = tags d"
  "palettes (raised l c m d) = palettes d"
  "tilesets (raised l c m d) = tilesets d"
  "colorProfiles (raised l c m d) = colorProfiles d"
  "gridBounds (raised l c m d) = gridBounds d"
  "layers (raised l c m d) = (layers d \<or> l)"
  "cels (raised l c m d) = (cels d \<or> c)"
  "images (raised l c m d) = (images d \<or> m)"
  "anything (raised l c m d) = (anything d \<or> l \<or> c \<or> m)"
  by (simp_all add: raised_def)

lemma compare_cel_raised: "\<exists>c m. compare_cel E x y d = raised False c m d"
proof (cases x)
  case None
  show ?thesis
  proof (cases y)
    case None
    with \<open>x = None\<close> have "compare_cel E x y d = raised False False False d"
      by (simp add: raised_none)
    then show ?thesis by blast
  next
    case (Some bc)
    with \<open>x = None\<close> have "compare_cel E x y d = raised False True False d"
      by (simp add: raised_def)
    then show ?thesis by blast
  qed
next
  case (Some ac)
  show ?thesis
  proof (cases y)
    case None
    with Some have "compare_cel E x y d = raised False True False d"
      by (simp add: raised_def)
    then show ?thesis by blast
  next
    case (Some bc)
    define c where "c \<longleftrightarrow> cel_frame ac = cel_frame bc \<or> cel_bounds ac = cel_bounds bc \<or>
                cel_opacity ac = cel_opacity bc"
    define m where "m \<longleftrightarrow> (case (cel_image ac, cel_image bc) of
           (Some aImage, Some bImage) \<Rightarrow>
             image_bounds aImage \<noteq> image_bounds bImage \<or> \<not> is_same_image E aImage bImage
         | (None, None) \<Rightarrow> False
         | (aImage, bImage) \<Rightarrow> True)"
    from Some \<open>x = Some ac\<close> have "compare_cel E x y d = raised False c m d"
      by (auto simp: raised_def c_def m_def Let_def split: option.splits)
    then show ?thesis by blast
  qed
qed

lemma compare_cel_cels:
  "cels (compare_cel E x y d) =
     (cels d \<or> (x = None) \<noteq> (y = None) \<or>
      (\<exists>ac bc. x = Some ac \<and> y = Some bc \<and>
         (cel_frame ac = cel_frame bc \<or> cel_bounds ac = cel_bounds bc \<or>
          cel_opacity ac = cel_opacity bc)))"
  by (cases x; cases y) (auto simp: Let_def split: option.splits)

lemma cels_loop_fold:
  "cels_loop E a aLay bLay f d =
     (max f (sprite_totalFrames (sprite a)),
      fold (\<lambda>g. compare_cel E (cel aLay g) (cel bLay g)) [f..<sprite_totalFrames (sprite a)] d)"
proof (induction E a aLay bLay f d rule: cels_loop.induct)
  case (1 E a aLay bLay f diff)
  show ?case
  proof (cases "f < sprite_totalFrames (sprite a)")
    case False
    then show ?thesis by (subst cels_loop.simps) (simp add: max_def)
  next
    case True
    with 1 show ?thesis
      by (subst cels_loop.simps) (simp add: max_def upt_conv_Cons)
  qed
qed

lemma fold_compare_cel_raised:
  "\<exists>c m. fold (\<lambda>g. compare_cel E (cel aLay g) (cel bLay g)) fs d = raised False c m d"
proof (induction fs arbitrary: d)
  case Nil
  have "fold (\<lambda>g. compare_cel E (cel aLay g) (cel bLay g)) [] d = raised False False False d"
    by (simp add: raised_none)
  then show ?case by blast
next
  case (Cons f fs)
  obtain c m where 1: "compare_cel E (cel aLay f) (cel bLay f) d = raised False c m d"
    using compare_cel_raised by blast
  obtain c' m' where 2: "fold (\<lambda>g. compare_cel E (cel aLay g) (cel bLay g)) fs (raised False c m d) =
      raised False c' m' (raised False c m d)"
    using Cons by blast
  from 1 2 have "fold (\<lambda>g. compare_cel E (cel aLay g) (cel bLay g)) (f # fs) d =
      raised False (c' \<or> c) (m' \<or> m) d"
    by (simp add: raised_raised)
  then show ?case by blast
qed

lemma fold_compare_cel_cels:
  "cels (fold (\<lambda>g. compare_cel E (cel aLay g) (cel bLay g)) fs d) =
     (cels d \<or> (\<exists>f \<in> set fs. (cel aLay f = None) \<noteq> (cel bLay f = None) \<or>
      (\<exists>ac bc. cel aLay f = Some ac \<and> cel bLay f = Some bc \<and>
         (cel_frame ac = cel_frame bc \<or> cel_bounds ac = cel_bounds bc \<or>
          cel_opacity ac = cel_opacity bc))))"
proof (induction fs arbitrary: d)
  case Nil
  then show ?case by simp
next
  case (Cons f fs)
  show ?case
    unfolding fold_Cons comp_apply Cons.IH compare_cel_cels by auto
qed

lemma cels_loop_raised: "\<exists>c m. snd (cels_loop E a aLay bLay f d) = raised False c m d"
  by (simp add: cels_loop_fold fold_compare_cel_raised)

lemma layers_loop_raised: "\<exists>l c m. snd (layers_loop E a xs ys d) = raised l c m d"
proof (induction E a xs ys d rule: layers_loop.induct)
  case (1 E a aLay aIt bLay bIt diff)
  show ?case
  proof (cases "layer_differs E aLay bLay")
    case True
    then have "snd (layers_loop E a (aLay # aIt) (bLay # bIt) diff) = raised True False False diff"
      by (simp add: raised_def)
    then show ?thesis by blast
  next
    case False
    define d1 where "d1 = (if totalFrames diff then snd (cels_loop E a aLay bLay 0 diff) else diff)"
    obtain c m where d1: "d1 = raised False c m diff"
    proof (cases "totalFrames diff")
      case True
      then show ?thesis using cels_loop_raised[of E a aLay bLay 0 diff] that
        by (auto simp: d1_def)
    next
      case False
      then have "d1 = raised False False False diff" by (simp add: d1_def raised_none)
      then show ?thesis using that by blast
    qed
    from 1[OF False] obtain l' c' m' where
      "snd (layers_loop E a aIt bIt d1) = raised l' c' m' d1"
      unfolding d1_def by blast
    with False have "snd (layers_loop E a (aLay # aIt) (bLay # bIt) diff) =
        raised (l' \<or> False) (c' \<or> c) (m' \<or> m) diff"
      by (simp add: d1_def[symmetric] d1 raised_raised)
    then show ?thesis by blast
  qed
qed (metis layers_loop.simps(2) raised_none snd_conv,
     metis layers_loop.simps(3) raised_none snd_conv)

lemma layers_loop_ungated:
  "\<not> totalFrames d \<Longrightarrow>
   snd (layers_loop E a xs ys d) =
     (if \<exists>p \<in> set (zip xs ys). layer_differs E (fst p) (snd p)
      then d\<lparr>anything := True, layers := True\<rparr> else d)"
  by (induction E a xs ys d rule: layers_loop.induct) auto


section \<open>The blocks of \<open>compare_docs\<close>\<close>

subsection \<open>The flags that a block leaves alone\<close>

lemma compare_specs_fields:
  "totalFrames (compare_specs a b d) = totalFrames d"
  "frameDuration (compare_specs a b d) = frameDuration d"
  "tags (compare_specs a b d) = tags d"
  "palettes (compare_specs a b d) = palettes d"
  "tilesets (compare_specs a b d) = tilesets d"
  "layers (compare_specs a b d) = layers d"
  "cels (compare_specs a b d) = cels d"
  "images (compare_specs a b d) = images d"
  "colorProfiles (compare_specs a b d) = colorProfiles d"
  "gridBounds (compare_specs a b d) = gridBounds d"
  by (simp_all add: compare_specs_def)

lemma compare_frames_eq:
  "compare_frames a b d =
     (if sprite_totalFrames (sprite a) \<noteq> sprite_totalFrames (sprite b)
      then d\<lparr>anything := True, totalFrames := True\<rparr>
      else if \<exists>g < sprite_totalFrames (sprite a).
                sprite_frameDuration (sprite a) g \<noteq> sprite_frameDuration (sprite b) g
      then d\<lparr>anything := True, frameDuration := True\<rparr>
      else d)"
  by (simp add: compare_frames_def frames_loop_snd)

lemma compare_frames_fields:
  "canvas (compare_frames a b d) = canvas d"
  "tags (compare_frames a b d) = tags d"
  "palettes (compare_frames a b d) = palettes d"
  "tilesets (compare_frames a b d) = tilesets d"
  "layers (compare_frames a b d) = layers d"
  "cels (compare_frames a b d) = cels d"
  "images (compare_frames a b d) = images d"
  "colorProfiles (compare_frames a b d) = colorProfiles d"
  "gridBounds (compare_frames a b d) = gridBounds d"
  by (simp_all add: compare_frames_eq)

lemma compare_frames_totalFrames:
  "totalFrames (compare_frames a b d) =
     (totalFrames d \<or> sprite_totalFrames (sprite a) \<noteq> sprite_totalFrames (sprite b))"
  by (simp add: compare_frames_eq)

lemma compare_frames_frameDuration:
  "frameDuration (compare_frames a b d) =
     (frameDuration d \<or>
      sprite_totalFrames (sprite a) = sprite_totalFrames (sprite b) \<and>
      (\<exists>g < sprite_totalFrames (sprite a).
          sprite_frameDuration (sprite a) g \<noteq> sprite_frameDuration (sprite b) g))"
  by (auto simp: compare_frames_eq)

lemma compare_tags_eq:
  "compare_tags a b d =
     (if length (sprite_tags (sprite a)) \<noteq> length (sprite_tags (sprite b)) \<or>
         (\<exists>p \<in> set (zip (sprite_tags (sprite a)) (sprite_tags (sprite b))).
             tag_differs (fst p) (snd p))
      then d\<lparr>anything := True, tags := True\<rparr> else d)"
  by (simp add: compare_tags_def tags_loop_eq)

lemma compare_tags_fields:
  "canvas (compare_tags a b d) = canvas d"
  "totalFrames (compare_tags a b d) = totalFrames d"
  "frameDuration (compare_tags a b d) = frameDuration d"
  "palettes (compare_tags a b d) = palettes d"
  "tilesets (compare_tags a b d) = tilesets d"
  "layers (compare_tags a b d) = layers d"
  "cels (compare_tags a b d) = cels d"
  "images (compare_tags a b d) = images d"
  "colorProfiles (compare_tags a b d) = colorProfiles d"
  "gridBounds (compare_tags a b d) = gridBounds d"
  by (simp_all add: compare_tags_eq)

lemma compare_palettes_eq:
  "compare_palettes E a b d =
     (if length (getPalettes (sprite a)) \<noteq> length (getPalettes (sprite b)) \<and>
         (\<exists>p \<in> set (zip (getPalettes (sprite a)) (getPalettes (sprite b))).
             countDiff E (fst p) (snd p) \<noteq> 0)
      then d\<lparr>anything := True, palettes := True\<rparr> else d)"
  by (simp add: compare_palettes_def palettes_loop_eq)

lemma compare_palettes_fields:
  "canvas (compare_palettes E a b d) = canvas d"
  "totalFrames (compare_palettes E a b d) = totalFrames d"
  "frameDuration (compare_palettes E a b d) = frameDuration d"
  "tags (compare_palettes E a b d) = tags d"
  "tilesets (compare_palettes E a b d) = tilesets d"
  "layers (compare_palettes E a b d) = layers d"
  "cels (compare_palettes E a b d) = cels d"
  "images (compare_palettes E a b d) = images d"
  "colorProfiles (compare_palettes E a b d) = colorProfiles d"
  "gridBounds (compare_palettes E a b d) = gridBounds d"
  by (simp_all add: compare_palettes_eq)

lemma compare_tilesets_shape:
  "compare_tilesets E a b d = d \<or>
   compare_tilesets E a b d = d\<lparr>anything := True, tilesets := True\<rparr>"
  using tilesets_loop_shape[of E a b 0 d] by (simp add: compare_tilesets_def)

lemma compare_tilesets_fields:
  "canvas (compare_tilesets E a b d) = canvas d"
  "totalFrames (compare_tilesets E a b d) = totalFrames d"
  "frameDuration (compare_tilesets E a b d) = frameDuration d"
  "tags (compare_tilesets E a b d) = tags d"
  "palettes (compare_tilesets E a b d) = palettes d"
  "layers (compare_tilesets E a b d) = layers d"
  "cels (compare_tilesets E a b d) = cels d"
  "images (compare_tilesets E a b d) = images d"
  "colorProfiles (compare_tilesets E a b d) = colorProfiles d"
  "gridBounds (compare_tilesets E a b d) = gridBounds d"
  using compare_tilesets_shape[of E a b d] by auto

lemma compare_layers_raised: "\<exists>l c m. compare_layers E a b d = raised l c m d"
proof (cases "allLayersCount (sprite a) \<noteq> allLayersCount (sprite b)")
  case True
  then have "compare_layers E a b d = raised True False False d"
    by (simp add: compare_layers_def raised_def)
  then show ?thesis by blast
next
  case False
  then show ?thesis using layers_loop_raised by (simp add: compare_layers_def)
qed

lemma compare_layers_fields:
  "canvas (compare_layers E a b d) = canvas d"
  "totalFrames (compare_layers E a b d) = totalFrames d"
  "frameDuration (compare_layers E a b d) = frameDuration d"
  "tags (compare_layers E a b d) = tags d"
  "palettes (compare_layers E a b d) = palettes d"
  "tilesets (compare_layers E a b d) = tilesets d"
  "colorProfiles (compare_layers E a b d) = colorProfiles d"
  "gridBounds (compare_layers E a b d) = gridBounds d"
  using compare_layers_raised[of E a b d] by (auto simp: raised_fields)

lemma compare_colorSpaces_fields:
  "canvas (compare_colorSpaces E a b d) = canvas d"
  "totalFrames (compare_colorSpaces E a b d) = totalFrames d"
  "frameDuration (compare_colorSpaces E a b d) = frameDuration d"
  "tags (compare_colorSpaces E a b d) = tags d"
  "palettes (compare_colorSpaces E a b d) = palettes d"
  "tilesets (compare_colorSpaces E a b d) = tilesets d"
  "layers (compare_colorSpaces E a b d) = layers d"
  "cels (compare_colorSpaces E a b d) = cels d"
  "images (compare_colorSpaces E a b d) = images d"
  "gridBounds (compare_colorSpaces E a b d) = gridBounds d"
  by (simp_all add: compare_colorSpaces_def)

lemma compare_gridBounds_fields:
  "canvas (compare_gridBounds a b d) = canvas d"
  "totalFrames (compare_gridBounds a b d) = totalFrames d"
  "frameDuration (compare_gridBounds a b d) = frameDuration d"
  "tags (compare_gridBounds a b d) = tags d"
  "palettes (compare_gridBounds a b d) = palettes d"
  "tilesets (compare_gridBounds a b d) = tilesets d"
  "layers (compare_gridBounds a b d) = layers d"
  "cels (compare_gridBounds a b d) = cels d"
  "images (compare_gridBounds a b d) = images d"
  "colorProfiles (compare_gridBounds a b d) = colorProfiles d"
  by (simp_all add: compare_gridBounds_def)

lemmas block_fields = compare_specs_fields compare_frames_fields compare_tags_fields
  compare_palettes_fields compare_tilesets_fields compare_layers_fields
  compare_colorSpaces_fields compare_gridBounds_fields

lemma DocDiff_new_fields:
  "\<not> anything DocDiff_new" "\<not> canvas DocDiff_new" "\<not> totalFrames DocDiff_new"
  "\<not> frameDuration DocDiff_new" "\<not> tags DocDiff_new" "\<not> palettes DocDiff_new"
  "\<not> tilesets DocDiff_new" "\<not> layers DocDiff_new" "\<not> cels DocDiff_new"
  "\<not> images DocDiff_new" "\<not> colorProfiles DocDiff_new" "\<not> gridBounds DocDiff_new"
  by (simp_all add: DocDiff_new_def)

subsection \<open>The invariant of the flags\<close>

lemma flags_inv_new: "flags_inv DocDiff_new"
  by (simp add: flags_inv_def DocDiff_new_def)

lemma flags_inv_specs: "flags_inv d \<Longrightarrow> flags_inv (compare_specs a b d)"
  by (auto simp: flags_inv_def compare_specs_def)

lemma flags_inv_frames: "flags_inv d \<Longrightarrow> flags_inv (compare_frames a b d)"
  by (auto simp: flags_inv_def compare_frames_eq)

lemma flags_inv_tags: "flags_inv d \<Longrightarrow> flags_inv (compare_tags a b d)"
  by (auto simp: flags_inv_def compare_tags_eq)

lemma flags_inv_palettes: "flags_inv d \<Longrightarrow> flags_inv (compare_palettes E a b d)"
  by (auto simp: flags_inv_def compare_palettes_eq)

lemma flags_inv_tilesets: "flags_inv d \<Longrightarrow> flags_inv (compare_tilesets E a b d)"
  using compare_tilesets_shape[of E a b d] by (auto simp: flags_inv_def)

lemma flags_inv_layers: "flags_inv d \<Longrightarrow> flags_inv (compare_layers E a b d)"
  using compare_layers_raised[of E a b d] by (auto simp: flags_inv_def raised_fields)

lemma flags_inv_colorSpaces: "flags_inv d \<Longrightarrow> flags_inv (compare_colorSpaces E a b d)"
  by (auto simp: flags_inv_def compare_colorSpaces_def)

lemma flags_inv_gridBounds: "flags_inv d \<Longrightarrow> flags_inv (compare_gridBounds a b d)"
  by (auto simp: flags_inv_def compare_gridBounds_def)

subsection \<open>A document against itself\<close>

lemma zip_same_not:
  assumes "\<And>x. \<not> P x x"
  shows "\<not> (\<exists>p \<in> set (zip xs xs). P (fst p) (snd p))"
  using assms by (auto simp: zip_same)

lemma compare_specs_same: "compare_specs a a d = d"
  by (simp add: compare_specs_def)

lemma compare_frames_same: "compare_frames a a d = d"
  by (simp add: compare_frames_eq)

lemma compare_tags_same: "compare_tags a a d = d"
proof -
  have "\<And>x. \<not> tag_differs x x"
    by (simp add: tag_differs_def)
  then have "\<not> (\<exists>p \<in> set (zip (sprite_tags (sprite a)) (sprite_tags (sprite a))).
              tag_differs (fst p) (snd p))"
    by (rule zip_same_not)
  then show ?thesis
    by (simp add: compare_tags_eq)
qed

lemma compare_palettes_same_length:
  "length (getPalettes (sprite a)) = length (getPalettes (sprite b)) \<Longrightarrow>
   compare_palettes E a b d = d"
  by (simp add: compare_palettes_def)

lemma compare_tilesets_same:
  assumes "\<forall>i < TilesetSize a. \<forall>ti < tileset_size (tilesets_get (sprite a) i).
             is_same_image E (tileset_get (tilesets_get (sprite a) i) ti)
                             (tileset_get (tilesets_get (sprite a) i) ti)"
  shows "compare_tilesets E a a d = d"
proof -
  have "tilesets_loop E a a 0 d = tilesets_loop E a a (TilesetSize a) d"
    using assms by (intro tilesets_loop_first) (simp_all add: tileset_differs_def)
  then show ?thesis
    by (simp add: compare_tilesets_def tilesets_loop_end)
qed

lemma compare_layers_same:
  assumes "\<not> totalFrames d"
  shows "compare_layers E a a d = d"
proof -
  have "\<And>x. \<not> layer_differs E x x"
    by (simp add: layer_differs_def)
  then have "\<not> (\<exists>p \<in> set (zip (allLayers (sprite a)) (allLayers (sprite a))).
              layer_differs E (fst p) (snd p))"
    by (rule zip_same_not)
  with assms show ?thesis
    by (simp add: compare_layers_def layers_loop_ungated)
qed

lemma compare_colorSpaces_same:
  "nearlyEqual E (colorSpace (sprite a)) (colorSpace (sprite b)) \<Longrightarrow>
   compare_colorSpaces E a b d = d"
  by (simp add: compare_colorSpaces_def)

lemma compare_gridBounds_same: "compare_gridBounds a a d = d"
  by (simp add: compare_gridBounds_def)

subsection \<open>Flags of the result\<close>

lemma layers_loop_ungated_fields:
  "\<not> totalFrames d \<Longrightarrow> cels (snd (layers_loop E a xs ys d)) = cels d"
  "\<not> totalFrames d \<Longrightarrow> images (snd (layers_loop E a xs ys d)) = images d"
  by (simp_all add: layers_loop_ungated)

lemma compare_layers_ungated:
  "\<not> totalFrames d \<Longrightarrow> cels (compare_layers E a b d) = cels d"
  "\<not> totalFrames d \<Longrightarrow> images (compare_layers E a b d) = images d"
  by (simp_all add: compare_layers_def layers_loop_ungated)

lemma compare_docs_totalFrames:
  "totalFrames (compare_docs E a b) =
     (sprite_totalFrames (sprite a) \<noteq> sprite_totalFrames (sprite b))"
  unfolding compare_docs_def Let_def
  by (simp add: block_fields compare_frames_totalFrames DocDiff_new_fields)

lemma compare_docs_frameDuration:
  "frameDuration (compare_docs E a b) =
     (sprite_totalFrames (sprite a) = sprite_totalFrames (sprite b) \<and>
      (\<exists>g < sprite_totalFrames (sprite a).
          sprite_frameDuration (sprite a) g \<noteq> sprite_frameDuration (sprite b) g))"
  unfolding compare_docs_def Let_def
  by (simp add: block_fields compare_frames_frameDuration DocDiff_new_fields)

lemma compare_docs_equal_frames:
  assumes "sprite_totalFrames (sprite a) = sprite_totalFrames (sprite b)"
  shows "\<not> cels (compare_docs E a b)" and "\<not> images (compare_docs E a b)"
proof -
  define d where "d = compare_tilesets E a b (compare_palettes E a b (compare_tags a b
    (compare_frames a b (compare_specs a b DocDiff_new))))"
  have "\<not> totalFrames d"
    using assms by (simp add: d_def block_fields compare_frames_totalFrames DocDiff_new_fields)
  moreover have "\<not> cels d" "\<not> images d"
    by (simp_all add: d_def block_fields DocDiff_new_fields)
  ultimately have "\<not> cels (compare_layers E a b d)" "\<not> images (compare_layers E a b d)"
    by (simp_all add: compare_layers_ungated)
  then show "\<not> cels (compare_docs E a b)" and "\<not> images (compare_docs E a b)"
    unfolding compare_docs_def Let_def d_def[symmetric] by (simp_all add: block_fields)
qed


lemmas tileset_examples = TilesetSize_def hasTilesets_def tilesets_get_def tileset_size_def
  tileset_get_def tileset_differs_def exact_externals_def doc_1_def doc_1_no_tilesets_def
  doc_1_red_tiles_def doc_two_tilesets_def doc_two_tilesets_grown_def image_red_def
  image_blue_def

subsection \<open>From the loops to the result\<close>

lemma cels_loop_cels:
  "cels (snd (cels_loop E a aLay bLay 0 d)) =
     (cels d \<or>
      (\<exists>f < sprite_totalFrames (sprite a).
         (cel aLay f = None) \<noteq> (cel bLay f = None) \<or>
         (\<exists>aCel bCel. cel aLay f = Some aCel \<and> cel bLay f = Some bCel \<and>
            (cel_frame aCel = cel_frame bCel \<or> cel_bounds aCel = cel_bounds bCel \<or>
             cel_opacity aCel = cel_opacity bCel))))"
proof -
  have upto: "\<And>P n. (\<exists>f \<in> set [0..<n]. P f) = (\<exists>f < n. P f)"
    by auto
  show ?thesis
    unfolding cels_loop_fold snd_conv fold_compare_cel_cels upto ..
qed

lemma cels_loop_totalFrames:
  "totalFrames (snd (cels_loop E a aLay bLay f d)) = totalFrames d"
  using cels_loop_raised[of E a aLay bLay f d] by (auto simp: raised_fields)

lemma layers_loop_cels_kept: "cels d \<Longrightarrow> cels (snd (layers_loop E a xs ys d))"
  using layers_loop_raised[of E a xs ys d] by (auto simp: raised_fields)

lemma layers_loop_gated_step:
  "totalFrames d \<Longrightarrow> \<not> layer_differs E aLay bLay \<Longrightarrow>
   layers_loop E a (aLay # aIt) (bLay # bIt) d =
     layers_loop E a aIt bIt (snd (cels_loop E a aLay bLay 0 d))"
  by simp

lemma layers_loop_reaches_cel:
  assumes "length aPre = length bPre"
    and "\<forall>p \<in> set (zip aPre bPre). \<not> layer_differs E (fst p) (snd p)"
    and "\<not> layer_differs E aLay bLay"
    and "totalFrames d"
    and "f < sprite_totalFrames (sprite a)"
    and "(cel aLay f = None) \<noteq> (cel bLay f = None) \<or>
         (\<exists>aCel bCel. cel aLay f = Some aCel \<and> cel bLay f = Some bCel \<and>
            (cel_frame aCel = cel_frame bCel \<or> cel_bounds aCel = cel_bounds bCel \<or>
             cel_opacity aCel = cel_opacity bCel))"
  shows "cels (snd (layers_loop E a (aPre @ aLay # aIt) (bPre @ bLay # bIt) d))"
  using assms(1,2,4)
proof (induction aPre bPre arbitrary: d rule: list_induct2)
  case Nil
  have "cels (snd (cels_loop E a aLay bLay 0 d))"
    unfolding cels_loop_cels using assms(5,6) by blast
  then have "cels (snd (layers_loop E a aIt bIt (snd (cels_loop E a aLay bLay 0 d))))"
    by (rule layers_loop_cels_kept)
  with Nil assms(3) show ?case by simp
next
  case (Cons u us v vs)
  from Cons.prems have nd: "\<not> layer_differs E u v"
    and rest: "\<forall>p \<in> set (zip us vs). \<not> layer_differs E (fst p) (snd p)"
    by simp_all
  have "totalFrames (snd (cels_loop E a u v 0 d))"
    using Cons.prems(2) by (simp add: cels_loop_totalFrames)
  from Cons.IH[OF rest this] nd Cons.prems(2) show ?case by simp
qed

lemma compare_docs_cels:
  "cels (compare_docs E a b) =
     cels (compare_layers E a b (compare_tilesets E a b (compare_palettes E a b
       (compare_tags a b (compare_frames a b (compare_specs a b DocDiff_new))))))"
  unfolding compare_docs_def Let_def by (simp add: block_fields)

lemma compare_docs_reaches_cel:
  assumes "sprite_totalFrames (sprite a) \<noteq> sprite_totalFrames (sprite b)"
    and "allLayers (sprite a) = aPre @ aLay # aIt"
    and "allLayers (sprite b) = bPre @ bLay # bIt"
    and "length aPre = length bPre" and "length aIt = length bIt"
    and "\<forall>p \<in> set (zip aPre bPre). \<not> layer_differs E (fst p) (snd p)"
    and "\<not> layer_differs E aLay bLay"
    and "f < sprite_totalFrames (sprite a)"
    and "(cel aLay f = None) \<noteq> (cel bLay f = None) \<or>
         (\<exists>aCel bCel. cel aLay f = Some aCel \<and> cel bLay f = Some bCel \<and>
            (cel_frame aCel = cel_frame bCel \<or> cel_bounds aCel = cel_bounds bCel \<or>
             cel_opacity aCel = cel_opacity bCel))"
  shows "cels (compare_docs E a b)"
proof -
  define d where "d = compare_tilesets E a b (compare_palettes E a b (compare_tags a b
    (compare_frames a b (compare_specs a b DocDiff_new))))"
  have tf: "totalFrames d"
    using assms(1) by (simp add: d_def block_fields compare_frames_totalFrames)
  have "cels (snd (layers_loop E a (aPre @ aLay # aIt) (bPre @ bLay # bIt) d))"
    using assms(4,6,7) tf assms(8,9) by (rule layers_loop_reaches_cel)
  then have "cels (compare_layers E a b d)"
    using assms(2,3,4,5) by (simp add: compare_layers_def allLayersCount_def)
  then show ?thesis
    by (simp add: compare_docs_cels d_def)
qed

lemma compare_docs_tilesets:
  "tilesets (compare_docs E a b) =
     tilesets (compare_tilesets E a b (compare_palettes E a b (compare_tags a b
       (compare_frames a b (compare_specs a b DocDiff_new)))))"
  unfolding compare_docs_def Let_def by (simp add: block_fields)

lemma before_tilesets_unset:
  "\<not> tilesets (compare_palettes E a b (compare_tags a b
       (compare_frames a b (compare_specs a b DocDiff_new))))"
  by (simp add: block_fields DocDiff_new_fields)

lemma compare_docs_tilesets_set:
  "(\<And>d. compare_tilesets E a b d = d\<lparr>anything := True, tilesets := True\<rparr>) \<Longrightarrow>
   tilesets (compare_docs E a b)"
  by (simp add: compare_docs_tilesets)

lemma compare_docs_tilesets_unset:
  "(\<And>d. compare_tilesets E a b d = d) \<Longrightarrow> \<not> tilesets (compare_docs E a b)"
  by (simp add: compare_docs_tilesets before_tilesets_unset)

lemma compare_tilesets_count:
  "TilesetSize a \<noteq> TilesetSize b \<Longrightarrow>
   compare_tilesets E a b d = d\<lparr>anything := True, tilesets := True\<rparr>"
  by (simp add: compare_tilesets_def)

lemma tilesets_loop_leave_at:
  assumes "\<forall>j < i. \<not> tileset_differs (tilesets_get (sprite a) j) (tilesets_get (sprite b) j) \<and>
       (\<forall>tj < tileset_size (tilesets_get (sprite a) j).
          is_same_image E (tileset_get (tilesets_get (sprite a) j) tj)
                          (tileset_get (tilesets_get (sprite b) j) tj))"
    and "i < TilesetSize a"
    and "tileset_differs (tilesets_get (sprite a) i) (tilesets_get (sprite b) i) \<or>
         (\<exists>ti < tileset_size (tilesets_get (sprite a) i).
           \<not> is_same_image E (tileset_get (tilesets_get (sprite a) i) ti)
                             (tileset_get (tilesets_get (sprite b) i) ti))"
  shows "tilesets_loop E a b 0 d = (i, d\<lparr>anything := True, tilesets := True\<rparr>)"
proof -
  have "tilesets_loop E a b 0 d = tilesets_loop E a b i d"
    using assms(1,2) by (intro tilesets_loop_first) simp_all
  also have "\<dots> = (i, d\<lparr>anything := True, tilesets := True\<rparr>)"
    using assms(2,3) by (rule tilesets_loop_leave)
  finally show ?thesis .
qed

lemma tilesets_loop_all_same:
  assumes "\<forall>j < TilesetSize a.
       \<not> tileset_differs (tilesets_get (sprite a) j) (tilesets_get (sprite b) j) \<and>
       (\<forall>tj < tileset_size (tilesets_get (sprite a) j).
          is_same_image E (tileset_get (tilesets_get (sprite a) j) tj)
                          (tileset_get (tilesets_get (sprite b) j) tj))"
  shows "tilesets_loop E a b 0 d = (TilesetSize a, d)"
proof -
  have "tilesets_loop E a b 0 d = tilesets_loop E a b (TilesetSize a) d"
    using assms by (intro tilesets_loop_first) simp_all
  then show ?thesis
    by (simp add: tilesets_loop_end)
qed

section \<open>The claims\<close>

text \<open>
  C1. For every pair of documents, the result of \<open>compare_docs\<close> has \<open>anything\<close> true
  if and only if at least one of the other eleven flags is true.
\<close>

theorem anything_iff_other_flag:
  "anything (compare_docs E a b) =
     (canvas (compare_docs E a b) \<or> totalFrames (compare_docs E a b) \<or>
      frameDuration (compare_docs E a b) \<or> tags (compare_docs E a b) \<or>
      palettes (compare_docs E a b) \<or> tilesets (compare_docs E a b) \<or>
      layers (compare_docs E a b) \<or> cels (compare_docs E a b) \<or>
      images (compare_docs E a b) \<or> colorProfiles (compare_docs E a b) \<or>
      gridBounds (compare_docs E a b))"
proof -
  have "flags_inv (compare_docs E a b)"
    unfolding compare_docs_def Let_def
    by (intro flags_inv_gridBounds flags_inv_colorSpaces flags_inv_layers flags_inv_tilesets
        flags_inv_palettes flags_inv_tags flags_inv_frames flags_inv_specs flags_inv_new)
  then show ?thesis by (simp add: flags_inv_def)
qed

text \<open>
  On \<open>doc_2\<close> (two frames) against \<open>doc_1\<close> (one frame) the flag \<open>totalFrames\<close> is
  set, and \<open>anything\<close> with it.
\<close>

theorem anything_iff_other_flag_witness:
  "totalFrames (compare_docs exact_externals doc_2 doc_1) \<and>
   anything (compare_docs exact_externals doc_2 doc_1)"
proof -
  have "totalFrames (compare_docs exact_externals doc_2 doc_1)"
    by code_simp
  then show ?thesis
    using anything_iff_other_flag[of exact_externals doc_2 doc_1] by simp
qed

text \<open>
  C2. A document compared against an identical copy of itself gives a result in which
  every flag, \<open>anything\<close> included, is false. The two primitives that decide equality
  of images and of colour spaces are parameters of the model; the copy is identical for
  them when \<open>is_same_image\<close> holds of each tile with itself and \<open>nearlyEqual\<close> of the
  colour space with itself.
\<close>

theorem identical_docs_no_flags:
  assumes "\<forall>i < TilesetSize a. \<forall>ti < tileset_size (tilesets_get (sprite a) i).
             is_same_image E (tileset_get (tilesets_get (sprite a) i) ti)
                             (tileset_get (tilesets_get (sprite a) i) ti)"
    and "nearlyEqual E (colorSpace (sprite a)) (colorSpace (sprite a))"
  shows "compare_docs E a a =
     \<lparr> anything = False, canvas = False, totalFrames = False, frameDuration = False,
       tags = False, palettes = False, tilesets = False, layers = False, cels = False,
       images = False, colorProfiles = False, gridBounds = False \<rparr>"
proof -
  have "compare_docs E a a = DocDiff_new"
    unfolding compare_docs_def Let_def
    by (simp add: compare_specs_same compare_frames_same compare_tags_same
        compare_palettes_same_length compare_tilesets_same[OF assms(1)]
        compare_layers_same DocDiff_new_fields compare_colorSpaces_same[OF assms(2)]
        compare_gridBounds_same)
  then show ?thesis by (simp add: DocDiff_new_def)
qed

text \<open>\<open>doc_1\<close>, which has one tileset of two tiles, against itself.\<close>

theorem identical_docs_no_flags_witness:
  "TilesetSize doc_1 = 1 \<and> tileset_size (tilesets_get (sprite doc_1) 0) = 2 \<and>
   \<not> anything (compare_docs exact_externals doc_1 doc_1) \<and>
   \<not> tilesets (compare_docs exact_externals doc_1 doc_1)"
proof -
  have 1: "\<forall>i < TilesetSize doc_1. \<forall>ti < tileset_size (tilesets_get (sprite doc_1) i).
             is_same_image exact_externals (tileset_get (tilesets_get (sprite doc_1) i) ti)
                             (tileset_get (tilesets_get (sprite doc_1) i) ti)"
    by (simp add: exact_externals_def)
  have 2: "nearlyEqual exact_externals (colorSpace (sprite doc_1)) (colorSpace (sprite doc_1))"
    by (simp add: exact_externals_def)
  have 3: "TilesetSize doc_1 = 1" "tileset_size (tilesets_get (sprite doc_1) 0) = 2"
    by (simp_all add: TilesetSize_def hasTilesets_def tileset_size_def tilesets_get_def doc_1_def)
  show ?thesis
    using identical_docs_no_flags[OF 1 2] 3 by simp
qed

text \<open>
  C3. When the two lists of palettes have the same length, the block of the palettes
  leaves the flags as they are, whatever \<open>countDiff\<close> answers on the palettes, and
  \<open>compare_docs\<close> does not set \<open>palettes\<close>.
\<close>

theorem equal_length_palettes_not_compared:
  assumes "length (getPalettes (sprite a)) = length (getPalettes (sprite b))"
  shows "compare_palettes E a b d = d \<and> \<not> palettes (compare_docs E a b)"
proof
  show "compare_palettes E a b d = d"
    using assms by (rule compare_palettes_same_length)
  show "\<not> palettes (compare_docs E a b)"
    unfolding compare_docs_def Let_def
    by (simp add: block_fields compare_palettes_same_length[OF assms] DocDiff_new_fields)
qed

text \<open>
  \<open>doc_1\<close> against \<open>doc_1_recoloured\<close>: one palette each, which differ at both of
  their entries.
\<close>

theorem equal_length_palettes_not_compared_witness:
  "getPalettes (sprite doc_1) = [\<lparr> palette_colors = [0, 0xFFFFFFFF] \<rparr>] \<and>
   getPalettes (sprite doc_1_recoloured) = [\<lparr> palette_colors = [1, 2] \<rparr>] \<and>
   countDiff exact_externals \<lparr> palette_colors = [0, 0xFFFFFFFF] \<rparr> \<lparr> palette_colors = [1, 2] \<rparr> = 2 \<and>
   \<not> palettes (compare_docs exact_externals doc_1 doc_1_recoloured)"
proof -
  have 1: "length (getPalettes (sprite doc_1)) = length (getPalettes (sprite doc_1_recoloured))"
    by (simp add: doc_1_def doc_1_recoloured_def)
  have 2: "countDiff exact_externals \<lparr> palette_colors = [0, 0xFFFFFFFF] \<rparr> \<lparr> palette_colors = [1, 2] \<rparr> = 2"
    by (simp add: exact_externals_def)
  show ?thesis
    using equal_length_palettes_not_compared[OF 1, of exact_externals DocDiff_new] 2
    by (simp add: doc_1_def doc_1_recoloured_def)
qed

text \<open>
  C4. The cels and images of a pair of layers are compared only when \<open>totalFrames\<close> is
  already set, that is, only when the two documents differ in their number of frames:
  while \<open>totalFrames\<close> is not set, the loop over the layers leaves \<open>cels\<close> and \<open>images\<close>
  as they are and goes from one pair of layers to the next without the loop over the
  frames; when the numbers of frames are equal, \<open>cels\<close> and \<open>images\<close> are false in the
  result of \<open>compare_docs\<close>.
\<close>

theorem cels_compared_only_when_totalFrames:
  "(totalFrames (compare_docs E a b) =
      (sprite_totalFrames (sprite a) \<noteq> sprite_totalFrames (sprite b))) \<and>
   (sprite_totalFrames (sprite a) = sprite_totalFrames (sprite b) \<longrightarrow>
      \<not> cels (compare_docs E a b) \<and> \<not> images (compare_docs E a b)) \<and>
   (\<not> totalFrames d \<longrightarrow>
      cels (snd (layers_loop E a aIt bIt d)) = cels d \<and>
      images (snd (layers_loop E a aIt bIt d)) = images d) \<and>
   (\<not> totalFrames d \<and> \<not> layer_differs E aLay bLay \<longrightarrow>
      layers_loop E a (aLay # aIt) (bLay # bIt) d = layers_loop E a aIt bIt d)"
  by (simp add: compare_docs_totalFrames compare_docs_equal_frames layers_loop_ungated_fields)

text \<open>
  \<open>doc_2\<close> against \<open>doc_2_no_cel\<close>: two frames each; the layer of the first has a cel
  at frame 1, the layer of the second has none, and \<open>cels\<close> is not set.
\<close>

theorem cels_compared_only_when_totalFrames_witness:
  "sprite_totalFrames (sprite doc_2) = sprite_totalFrames (sprite doc_2_no_cel) \<and>
   cel (hd (allLayers (sprite doc_2))) 1 = Some cel_1 \<and>
   cel (hd (allLayers (sprite doc_2_no_cel))) 1 = None \<and>
   \<not> cels (compare_docs exact_externals doc_2 doc_2_no_cel) \<and>
   \<not> images (compare_docs exact_externals doc_2 doc_2_no_cel)"
proof -
  have 1: "sprite_totalFrames (sprite doc_2) = sprite_totalFrames (sprite doc_2_no_cel)"
    by (simp add: sprite_totalFrames_def doc_2_no_cel_def)
  have 2: "cel (hd (allLayers (sprite doc_2))) 1 = Some cel_1"
    "cel (hd (allLayers (sprite doc_2_no_cel))) 1 = None"
    by (simp_all add: doc_2_def doc_2_no_cel_def layer_cel_1_def layer_empty_def)
  show ?thesis
    using cels_compared_only_when_totalFrames[of exact_externals doc_2 doc_2_no_cel] 1 2
    by simp
qed

text \<open>
  C5 claims that the loop over the frames of a pair of layers runs up to the number of
  frames of the shorter document. It fails on \<open>doc_2\<close> (two frames) against \<open>doc_1\<close>
  (one frame): neither layer has a cel at frame 0, the only frame below the shorter
  count, yet the loop is left with \<open>f = 2\<close> and \<open>cels\<close> is set, by the cel that the
  layer of \<open>doc_2\<close> has at frame 1.
\<close>

theorem cels_loop_up_to_shorter_counterexample:
  "fst (cels_loop exact_externals doc_2 layer_cel_1 layer_empty 0 DocDiff_new) \<noteq>
     min (sprite_totalFrames (sprite doc_2)) (sprite_totalFrames (sprite doc_1)) \<and>
   sprite_totalFrames (sprite doc_2) = 2 \<and>
   sprite_totalFrames (sprite doc_1) = 1 \<and>
   allLayers (sprite doc_2) = [layer_cel_1] \<and>
   allLayers (sprite doc_1) = [layer_empty] \<and>
   cel layer_cel_1 0 = None \<and> cel layer_empty 0 = None \<and>
   cel layer_cel_1 1 = Some cel_1 \<and> cel layer_empty 1 = None \<and>
   fst (cels_loop exact_externals doc_2 layer_cel_1 layer_empty 0 DocDiff_new) = 2 \<and>
   cels (compare_docs exact_externals doc_2 doc_1)"
proof -
  have "fst (cels_loop exact_externals doc_2 layer_cel_1 layer_empty 0 DocDiff_new) = 2"
    by code_simp
  moreover have "cels (compare_docs exact_externals doc_2 doc_1)"
    by code_simp
  ultimately show ?thesis
    by (simp add: sprite_totalFrames_def doc_2_def doc_1_def layer_cel_1_def layer_empty_def)
qed

text \<open>
  C5, amended. Whenever the cels of a pair of layers are compared, they are fetched and
  compared for each frame index below the number of frames of the first document \<open>a\<close>,
  whether \<open>a\<close> is the shorter document or the longer one: the loop is left with \<open>f\<close>
  equal to that number, and its flags are those of the body of the loop applied to the
  frames \<open>0, \<dots>, totalFrames(a) - 1\<close> in this order.
\<close>

theorem cels_loop_up_to_first_doc:
  "cels_loop E a aLay bLay 0 d =
     (sprite_totalFrames (sprite a),
      fold (\<lambda>f. compare_cel E (cel aLay f) (cel bLay f)) [0..<sprite_totalFrames (sprite a)] d)"
  by (simp add: cels_loop_fold)

text \<open>
  With \<open>doc_1\<close> first the loop stops at 1 and does not see the cel at frame 1; with
  \<open>doc_2\<close> first it stops at 2 and sees it.
\<close>

theorem cels_loop_up_to_first_doc_witness:
  "cels_loop exact_externals doc_1 layer_empty layer_cel_1 0 DocDiff_new = (1, DocDiff_new) \<and>
   cels_loop exact_externals doc_2 layer_cel_1 layer_empty 0 DocDiff_new =
     (2, DocDiff_new\<lparr>anything := True, cels := True\<rparr>)"
  using cels_loop_up_to_first_doc[of exact_externals doc_1 layer_empty layer_cel_1 DocDiff_new]
    cels_loop_up_to_first_doc[of exact_externals doc_2 layer_cel_1 layer_empty DocDiff_new]
  by (simp add: sprite_totalFrames_def doc_2_def doc_1_def layer_cel_1_def layer_empty_def
      upt_conv_Cons)

text \<open>
  C6. In the comparison of the cels of one frame, if exactly one side has a cel, \<open>cels\<close>
  is set and the scan goes on (the loop has no \<open>break\<close>: it is left with \<open>f\<close> equal
  to the number of frames of \<open>a\<close>, and \<open>cels\<close> is set after it exactly when it was set
  before or some frame sets it); if both sides have a cel, \<open>cels\<close> is set when the two
  cels have equal frame index, equal bounds or equal opacity (equality, not
  inequality), and is left as it was otherwise. The loop over the layers runs this
  comparison on each pair of layers that does not differ, once \<open>totalFrames\<close> is set;
  so, when the numbers of frames differ and the numbers of layers do not, a frame of
  such a pair (no pair before it differing) at which exactly one side has a cel, or
  both have one with equal frame index, bounds or opacity, sets \<open>cels\<close> and \<open>anything\<close>
  in the result of \<open>compare_docs\<close>.
\<close>

theorem cel_comparison_flags:
  "compare_cel E None (Some bCel) d = d\<lparr>anything := True, cels := True\<rparr> \<and>
   compare_cel E (Some aCel) None d = d\<lparr>anything := True, cels := True\<rparr> \<and>
   cels (compare_cel E (Some aCel) (Some bCel) d) =
     (cels d \<or> cel_frame aCel = cel_frame bCel \<or> cel_bounds aCel = cel_bounds bCel \<or>
      cel_opacity aCel = cel_opacity bCel) \<and>
   fst (cels_loop E a aLay bLay 0 d) = sprite_totalFrames (sprite a) \<and>
   cels (snd (cels_loop E a aLay bLay 0 d)) =
     (cels d \<or>
      (\<exists>f < sprite_totalFrames (sprite a).
         (cel aLay f = None) \<noteq> (cel bLay f = None) \<or>
         (\<exists>aCel bCel. cel aLay f = Some aCel \<and> cel bLay f = Some bCel \<and>
            (cel_frame aCel = cel_frame bCel \<or> cel_bounds aCel = cel_bounds bCel \<or>
             cel_opacity aCel = cel_opacity bCel)))) \<and>
   (totalFrames d \<and> \<not> layer_differs E aLay bLay \<longrightarrow>
      layers_loop E a (aLay # aIt) (bLay # bIt) d =
        layers_loop E a aIt bIt (snd (cels_loop E a aLay bLay 0 d))) \<and>
   (sprite_totalFrames (sprite a) \<noteq> sprite_totalFrames (sprite b) \<and>
    allLayers (sprite a) = aPre @ aLay # aIt \<and> allLayers (sprite b) = bPre @ bLay # bIt \<and>
    length aPre = length bPre \<and> length aIt = length bIt \<and>
    (\<forall>p \<in> set (zip aPre bPre). \<not> layer_differs E (fst p) (snd p)) \<and>
    \<not> layer_differs E aLay bLay \<and>
    f < sprite_totalFrames (sprite a) \<and>
    ((cel aLay f = None) \<noteq> (cel bLay f = None) \<or>
     (\<exists>aCel bCel. cel aLay f = Some aCel \<and> cel bLay f = Some bCel \<and>
        (cel_frame aCel = cel_frame bCel \<or> cel_bounds aCel = cel_bounds bCel \<or>
         cel_opacity aCel = cel_opacity bCel))) \<longrightarrow>
      cels (compare_docs E a b) \<and> anything (compare_docs E a b))"
proof (intro conjI impI)
  show "cels (compare_cel E (Some aCel) (Some bCel) d) =
     (cels d \<or> cel_frame aCel = cel_frame bCel \<or> cel_bounds aCel = cel_bounds bCel \<or>
      cel_opacity aCel = cel_opacity bCel)"
    unfolding compare_cel_cels by simp
  show "cels (snd (cels_loop E a aLay bLay 0 d)) =
     (cels d \<or>
      (\<exists>f < sprite_totalFrames (sprite a).
         (cel aLay f = None) \<noteq> (cel bLay f = None) \<or>
         (\<exists>aCel bCel. cel aLay f = Some aCel \<and> cel bLay f = Some bCel \<and>
            (cel_frame aCel = cel_frame bCel \<or> cel_bounds aCel = cel_bounds bCel \<or>
             cel_opacity aCel = cel_opacity bCel))))"
    by (rule cels_loop_cels)
  show "fst (cels_loop E a aLay bLay 0 d) = sprite_totalFrames (sprite a)"
    by (simp add: cels_loop_fold)
next
  assume "totalFrames d \<and> \<not> layer_differs E aLay bLay"
  then show "layers_loop E a (aLay # aIt) (bLay # bIt) d =
        layers_loop E a aIt bIt (snd (cels_loop E a aLay bLay 0 d))"
    by (simp add: layers_loop_gated_step)
next
  assume h: "sprite_totalFrames (sprite a) \<noteq> sprite_totalFrames (sprite b) \<and>
    allLayers (sprite a) = aPre @ aLay # aIt \<and> allLayers (sprite b) = bPre @ bLay # bIt \<and>
    length aPre = length bPre \<and> length aIt = length bIt \<and>
    (\<forall>p \<in> set (zip aPre bPre). \<not> layer_differs E (fst p) (snd p)) \<and>
    \<not> layer_differs E aLay bLay \<and>
    f < sprite_totalFrames (sprite a) \<and>
    ((cel aLay f = None) \<noteq> (cel bLay f = None) \<or>
     (\<exists>aCel bCel. cel aLay f = Some aCel \<and> cel bLay f = Some bCel \<and>
        (cel_frame aCel = cel_frame bCel \<or> cel_bounds aCel = cel_bounds bCel \<or>
         cel_opacity aCel = cel_opacity bCel)))"
  then show c: "cels (compare_docs E a b)"
    by (intro compare_docs_reaches_cel[where aPre = aPre and bPre = bPre and aLay = aLay
          and bLay = bLay and aIt = aIt and bIt = bIt and f = f]) simp_all
  have "flags_inv (compare_docs E a b)"
    unfolding compare_docs_def Let_def
    by (intro flags_inv_gridBounds flags_inv_colorSpaces flags_inv_layers flags_inv_tilesets
        flags_inv_palettes flags_inv_tags flags_inv_frames flags_inv_specs flags_inv_new)
  with c show "anything (compare_docs E a b)"
    by (simp add: flags_inv_def)
qed simp_all

text \<open>
  \<open>doc_2\<close> (two frames) against \<open>doc_1\<close> (one frame): at frame 1 only the layer of
  \<open>doc_2\<close> has a cel, and \<open>cels\<close> is set in the result. \<open>doc_2\<close> against
  \<open>doc_3_moved\<close> (three frames): at frame 1 both layers have a cel, the two cels
  differ in bounds and opacity and agree on the frame index, and \<open>cels\<close> is set in the
  result.
\<close>

theorem cel_comparison_flags_witness:
  "cel layer_cel_1 1 = Some cel_1 \<and> cel layer_empty 1 = None \<and>
   cels (compare_docs exact_externals doc_2 doc_1) \<and>
   cel layer_cel_1_moved 1 = Some cel_1_moved \<and>
   cel_frame cel_1 = cel_frame cel_1_moved \<and>
   cel_bounds cel_1 \<noteq> cel_bounds cel_1_moved \<and>
   cel_opacity cel_1 \<noteq> cel_opacity cel_1_moved \<and>
   cels (compare_docs exact_externals doc_2 doc_3_moved) \<and>
   anything (compare_docs exact_externals doc_2 doc_3_moved) \<and>
   cels (compare_cel exact_externals (Some cel_1) (Some cel_1_moved) DocDiff_new) \<and>
   cels_loop exact_externals doc_2 layer_cel_1 layer_empty 0 DocDiff_new =
     (2, DocDiff_new\<lparr>anything := True, cels := True\<rparr>)"
proof -
  have facts: "cel layer_cel_1 1 = Some cel_1" "cel layer_empty 1 = None"
    "cel layer_cel_1_moved 1 = Some cel_1_moved"
    "cel_frame cel_1 = cel_frame cel_1_moved"
    "cel_bounds cel_1 \<noteq> cel_bounds cel_1_moved"
    "cel_opacity cel_1 \<noteq> cel_opacity cel_1_moved"
    by (simp_all add: layer_cel_1_def layer_empty_def layer_cel_1_moved_def cel_1_moved_def
        cel_1_def rect_2x1_def)
  have nd: "\<not> layer_differs exact_externals layer_cel_1 layer_empty"
    "\<not> layer_differs exact_externals layer_cel_1 layer_cel_1_moved"
    by (simp_all add: layer_differs_def layer_cel_1_def layer_empty_def layer_cel_1_moved_def)
  have 1: "sprite_totalFrames (sprite doc_2) \<noteq> sprite_totalFrames (sprite doc_1) \<and>
    allLayers (sprite doc_2) = [] @ layer_cel_1 # [] \<and>
    allLayers (sprite doc_1) = [] @ layer_empty # [] \<and>
    length ([] :: Layer list) = length ([] :: Layer list) \<and>
    length ([] :: Layer list) = length ([] :: Layer list) \<and>
    (\<forall>p \<in> set (zip [] []). \<not> layer_differs exact_externals (fst p) (snd p)) \<and>
    \<not> layer_differs exact_externals layer_cel_1 layer_empty \<and>
    1 < sprite_totalFrames (sprite doc_2) \<and>
    ((cel layer_cel_1 1 = None) \<noteq> (cel layer_empty 1 = None) \<or>
     (\<exists>aCel bCel. cel layer_cel_1 1 = Some aCel \<and> cel layer_empty 1 = Some bCel \<and>
        (cel_frame aCel = cel_frame bCel \<or> cel_bounds aCel = cel_bounds bCel \<or>
         cel_opacity aCel = cel_opacity bCel)))"
    using nd facts by (simp add: sprite_totalFrames_def doc_2_def doc_1_def)
  have 2: "sprite_totalFrames (sprite doc_2) \<noteq> sprite_totalFrames (sprite doc_3_moved) \<and>
    allLayers (sprite doc_2) = [] @ layer_cel_1 # [] \<and>
    allLayers (sprite doc_3_moved) = [] @ layer_cel_1_moved # [] \<and>
    length ([] :: Layer list) = length ([] :: Layer list) \<and>
    length ([] :: Layer list) = length ([] :: Layer list) \<and>
    (\<forall>p \<in> set (zip [] []). \<not> layer_differs exact_externals (fst p) (snd p)) \<and>
    \<not> layer_differs exact_externals layer_cel_1 layer_cel_1_moved \<and>
    1 < sprite_totalFrames (sprite doc_2) \<and>
    ((cel layer_cel_1 1 = None) \<noteq> (cel layer_cel_1_moved 1 = None) \<or>
     (\<exists>aCel bCel. cel layer_cel_1 1 = Some aCel \<and> cel layer_cel_1_moved 1 = Some bCel \<and>
        (cel_frame aCel = cel_frame bCel \<or> cel_bounds aCel = cel_bounds bCel \<or>
         cel_opacity aCel = cel_opacity bCel)))"
    using nd facts by (simp add: sprite_totalFrames_def doc_2_def doc_1_def doc_3_moved_def)
  note one_sided = cel_comparison_flags[where E = exact_externals and a = doc_2 and
      b = doc_1 and aPre = "[]" and bPre = "[]" and aLay = layer_cel_1 and
      bLay = layer_empty and aIt = "[]" and bIt = "[]" and f = 1,
      THEN conjunct2, THEN conjunct2, THEN conjunct2, THEN conjunct2, THEN conjunct2,
      THEN conjunct2, THEN mp, OF 1]
  note both = cel_comparison_flags[where E = exact_externals and a = doc_2 and
      b = doc_3_moved and aPre = "[]" and bPre = "[]" and aLay = layer_cel_1 and
      bLay = layer_cel_1_moved and aIt = "[]" and bIt = "[]" and f = 1,
      THEN conjunct2, THEN conjunct2, THEN conjunct2, THEN conjunct2, THEN conjunct2,
      THEN conjunct2, THEN mp, OF 2]
  note step = cel_comparison_flags[where E = exact_externals and aCel = cel_1 and
      bCel = cel_1_moved and d = DocDiff_new, THEN conjunct2, THEN conjunct2, THEN conjunct1]
  have 3: "cels (compare_cel exact_externals (Some cel_1) (Some cel_1_moved) DocDiff_new)"
    unfolding step using facts(4) by simp
  have 4: "cels_loop exact_externals doc_2 layer_cel_1 layer_empty 0 DocDiff_new =
     (2, DocDiff_new\<lparr>anything := True, cels := True\<rparr>)"
    by code_simp
  from facts one_sided both 3 4 show ?thesis by blast
qed



text \<open>
  C8. If the numbers of tilesets differ, \<open>tilesets\<close> is set. Otherwise the pairs of
  tilesets are taken in order: at the first pair that differs in tile size or in number
  of tiles, \<open>tilesets\<close> is set and the loop over the tilesets is left there; at the
  first pair of tiles that \<open>is_same_image\<close> rejects, \<open>tilesets\<close> is set and both loops
  are left there, through the one label \<open>done\<close>; when no pair differs, the loop runs
  to the end and the flags are unchanged. In each of the three cases that set it,
  \<open>tilesets\<close> is set in the result of \<open>compare_docs\<close>; in the last case it is not.
\<close>

theorem tilesets_first_mismatch:
  "(TilesetSize a \<noteq> TilesetSize b \<longrightarrow>
      compare_tilesets E a b d = d\<lparr>anything := True, tilesets := True\<rparr> \<and>
      tilesets (compare_docs E a b)) \<and>
   (TilesetSize a = TilesetSize b \<and>
    (\<forall>j < i. \<not> tileset_differs (tilesets_get (sprite a) j) (tilesets_get (sprite b) j) \<and>
       (\<forall>tj < tileset_size (tilesets_get (sprite a) j).
          is_same_image E (tileset_get (tilesets_get (sprite a) j) tj)
                          (tileset_get (tilesets_get (sprite b) j) tj))) \<and>
    i < TilesetSize a \<and>
    (grid_tileSize (tilesets_get (sprite a) i) \<noteq> grid_tileSize (tilesets_get (sprite b) i) \<or>
     tileset_size (tilesets_get (sprite a) i) \<noteq> tileset_size (tilesets_get (sprite b) i)) \<longrightarrow>
      tilesets_loop E a b 0 d = (i, d\<lparr>anything := True, tilesets := True\<rparr>) \<and>
      compare_tilesets E a b d = d\<lparr>anything := True, tilesets := True\<rparr> \<and>
      tilesets (compare_docs E a b)) \<and>
   (TilesetSize a = TilesetSize b \<and>
    (\<forall>j < i. \<not> tileset_differs (tilesets_get (sprite a) j) (tilesets_get (sprite b) j) \<and>
       (\<forall>tj < tileset_size (tilesets_get (sprite a) j).
          is_same_image E (tileset_get (tilesets_get (sprite a) j) tj)
                          (tileset_get (tilesets_get (sprite b) j) tj))) \<and>
    i < TilesetSize a \<and>
    \<not> tileset_differs (tilesets_get (sprite a) i) (tilesets_get (sprite b) i) \<and>
    ti < tileset_size (tilesets_get (sprite a) i) \<and>
    \<not> is_same_image E (tileset_get (tilesets_get (sprite a) i) ti)
                      (tileset_get (tilesets_get (sprite b) i) ti) \<and>
    (\<forall>tj < ti. is_same_image E (tileset_get (tilesets_get (sprite a) i) tj)
                               (tileset_get (tilesets_get (sprite b) i) tj)) \<longrightarrow>
      tiles_loop E (tilesets_get (sprite a) i) (tilesets_get (sprite b) i) 0 d =
        (ti, True, d\<lparr>anything := True, tilesets := True\<rparr>) \<and>
      tilesets_loop E a b 0 d = (i, d\<lparr>anything := True, tilesets := True\<rparr>) \<and>
      compare_tilesets E a b d = d\<lparr>anything := True, tilesets := True\<rparr> \<and>
      tilesets (compare_docs E a b)) \<and>
   (TilesetSize a = TilesetSize b \<and>
    (\<forall>j < TilesetSize a.
       \<not> tileset_differs (tilesets_get (sprite a) j) (tilesets_get (sprite b) j) \<and>
       (\<forall>tj < tileset_size (tilesets_get (sprite a) j).
          is_same_image E (tileset_get (tilesets_get (sprite a) j) tj)
                          (tileset_get (tilesets_get (sprite b) j) tj))) \<longrightarrow>
      tilesets_loop E a b 0 d = (TilesetSize a, d) \<and>
      compare_tilesets E a b d = d \<and>
      \<not> tilesets (compare_docs E a b))"
proof (intro conjI impI)
  assume h: "TilesetSize a \<noteq> TilesetSize b"
  then show "compare_tilesets E a b d = d\<lparr>anything := True, tilesets := True\<rparr>"
    by (rule compare_tilesets_count)
  from h show "tilesets (compare_docs E a b)"
    by (intro compare_docs_tilesets_set compare_tilesets_count)
next
  assume h: "TilesetSize a = TilesetSize b \<and>
    (\<forall>j < i. \<not> tileset_differs (tilesets_get (sprite a) j) (tilesets_get (sprite b) j) \<and>
       (\<forall>tj < tileset_size (tilesets_get (sprite a) j).
          is_same_image E (tileset_get (tilesets_get (sprite a) j) tj)
                          (tileset_get (tilesets_get (sprite b) j) tj))) \<and>
    i < TilesetSize a \<and>
    (grid_tileSize (tilesets_get (sprite a) i) \<noteq> grid_tileSize (tilesets_get (sprite b) i) \<or>
     tileset_size (tilesets_get (sprite a) i) \<noteq> tileset_size (tilesets_get (sprite b) i))"
  then have loop: "tilesets_loop E a b 0 d = (i, d\<lparr>anything := True, tilesets := True\<rparr>)" for d
    by (intro tilesets_loop_leave_at) (simp_all add: tileset_differs_def)
  then show "tilesets_loop E a b 0 d = (i, d\<lparr>anything := True, tilesets := True\<rparr>)" .
  from h have block: "compare_tilesets E a b d = d\<lparr>anything := True, tilesets := True\<rparr>" for d
    by (simp add: compare_tilesets_def loop)
  then show "compare_tilesets E a b d = d\<lparr>anything := True, tilesets := True\<rparr>" .
  from block show "tilesets (compare_docs E a b)"
    by (rule compare_docs_tilesets_set)
next
  assume h: "TilesetSize a = TilesetSize b \<and>
    (\<forall>j < i. \<not> tileset_differs (tilesets_get (sprite a) j) (tilesets_get (sprite b) j) \<and>
       (\<forall>tj < tileset_size (tilesets_get (sprite a) j).
          is_same_image E (tileset_get (tilesets_get (sprite a) j) tj)
                          (tileset_get (tilesets_get (sprite b) j) tj))) \<and>
    i < TilesetSize a \<and>
    \<not> tileset_differs (tilesets_get (sprite a) i) (tilesets_get (sprite b) i) \<and>
    ti < tileset_size (tilesets_get (sprite a) i) \<and>
    \<not> is_same_image E (tileset_get (tilesets_get (sprite a) i) ti)
                      (tileset_get (tilesets_get (sprite b) i) ti) \<and>
    (\<forall>tj < ti. is_same_image E (tileset_get (tilesets_get (sprite a) i) tj)
                               (tileset_get (tilesets_get (sprite b) i) tj))"
  then show "tiles_loop E (tilesets_get (sprite a) i) (tilesets_get (sprite b) i) 0 d =
        (ti, True, d\<lparr>anything := True, tilesets := True\<rparr>)"
    by (intro tiles_loop_goto) simp_all
  from h have loop: "tilesets_loop E a b 0 d = (i, d\<lparr>anything := True, tilesets := True\<rparr>)" for d
    by (intro tilesets_loop_leave_at) auto
  then show "tilesets_loop E a b 0 d = (i, d\<lparr>anything := True, tilesets := True\<rparr>)" .
  from h have block: "compare_tilesets E a b d = d\<lparr>anything := True, tilesets := True\<rparr>" for d
    by (simp add: compare_tilesets_def loop)
  then show "compare_tilesets E a b d = d\<lparr>anything := True, tilesets := True\<rparr>" .
  from block show "tilesets (compare_docs E a b)"
    by (rule compare_docs_tilesets_set)
next
  assume h: "TilesetSize a = TilesetSize b \<and>
    (\<forall>j < TilesetSize a.
       \<not> tileset_differs (tilesets_get (sprite a) j) (tilesets_get (sprite b) j) \<and>
       (\<forall>tj < tileset_size (tilesets_get (sprite a) j).
          is_same_image E (tileset_get (tilesets_get (sprite a) j) tj)
                          (tileset_get (tilesets_get (sprite b) j) tj)))"
  then have loop: "tilesets_loop E a b 0 d = (TilesetSize a, d)" for d
    by (intro tilesets_loop_all_same) simp
  then show "tilesets_loop E a b 0 d = (TilesetSize a, d)" .
  from h have block: "compare_tilesets E a b d = d" for d
    by (simp add: compare_tilesets_def loop)
  then show "compare_tilesets E a b d = d" .
  from block show "\<not> tilesets (compare_docs E a b)"
    by (rule compare_docs_tilesets_unset)
qed

text \<open>
  \<open>doc_1\<close> against a document without tilesets; two tilesets of which the second has
  one more tile; one tileset whose second tile differs; two tilesets against themselves.
\<close>

theorem tilesets_first_mismatch_witness:
  "compare_tilesets exact_externals doc_1 doc_1_no_tilesets DocDiff_new =
     DocDiff_new\<lparr>anything := True, tilesets := True\<rparr> \<and>
   tilesets (compare_docs exact_externals doc_1 doc_1_no_tilesets) \<and>
   tilesets_loop exact_externals doc_two_tilesets doc_two_tilesets_grown 0 DocDiff_new =
     (1, DocDiff_new\<lparr>anything := True, tilesets := True\<rparr>) \<and>
   tilesets (compare_docs exact_externals doc_two_tilesets doc_two_tilesets_grown) \<and>
   tiles_loop exact_externals (tilesets_get (sprite doc_1) 0)
       (tilesets_get (sprite doc_1_red_tiles) 0) 0 DocDiff_new =
     (1, True, DocDiff_new\<lparr>anything := True, tilesets := True\<rparr>) \<and>
   tilesets_loop exact_externals doc_1 doc_1_red_tiles 0 DocDiff_new =
     (0, DocDiff_new\<lparr>anything := True, tilesets := True\<rparr>) \<and>
   compare_tilesets exact_externals doc_1 doc_1_red_tiles DocDiff_new =
     DocDiff_new\<lparr>anything := True, tilesets := True\<rparr> \<and>
   tilesets (compare_docs exact_externals doc_1 doc_1_red_tiles) \<and>
   tilesets_loop exact_externals doc_two_tilesets doc_two_tilesets 0 DocDiff_new =
     (2, DocDiff_new) \<and>
   \<not> tilesets (compare_docs exact_externals doc_two_tilesets doc_two_tilesets)"
proof -
  have 1: "TilesetSize doc_1 \<noteq> TilesetSize doc_1_no_tilesets"
    by (simp add: tileset_examples)
  have 2: "TilesetSize doc_two_tilesets = TilesetSize doc_two_tilesets_grown \<and>
    (\<forall>j < 1. \<not> tileset_differs (tilesets_get (sprite doc_two_tilesets) j)
                        (tilesets_get (sprite doc_two_tilesets_grown) j) \<and>
       (\<forall>tj < tileset_size (tilesets_get (sprite doc_two_tilesets) j).
          is_same_image exact_externals (tileset_get (tilesets_get (sprite doc_two_tilesets) j) tj)
                          (tileset_get (tilesets_get (sprite doc_two_tilesets_grown) j) tj))) \<and>
    1 < TilesetSize doc_two_tilesets \<and>
    (grid_tileSize (tilesets_get (sprite doc_two_tilesets) 1) \<noteq>
       grid_tileSize (tilesets_get (sprite doc_two_tilesets_grown) 1) \<or>
     tileset_size (tilesets_get (sprite doc_two_tilesets) 1) \<noteq>
       tileset_size (tilesets_get (sprite doc_two_tilesets_grown) 1))"
    by (simp add: tileset_examples)
  have 3: "TilesetSize doc_1 = TilesetSize doc_1_red_tiles \<and>
    (\<forall>j < 0. \<not> tileset_differs (tilesets_get (sprite doc_1) j)
                        (tilesets_get (sprite doc_1_red_tiles) j) \<and>
       (\<forall>tj < tileset_size (tilesets_get (sprite doc_1) j).
          is_same_image exact_externals (tileset_get (tilesets_get (sprite doc_1) j) tj)
                          (tileset_get (tilesets_get (sprite doc_1_red_tiles) j) tj))) \<and>
    0 < TilesetSize doc_1 \<and>
    \<not> tileset_differs (tilesets_get (sprite doc_1) 0) (tilesets_get (sprite doc_1_red_tiles) 0) \<and>
    1 < tileset_size (tilesets_get (sprite doc_1) 0) \<and>
    \<not> is_same_image exact_externals (tileset_get (tilesets_get (sprite doc_1) 0) 1)
                      (tileset_get (tilesets_get (sprite doc_1_red_tiles) 0) 1) \<and>
    (\<forall>tj < 1. is_same_image exact_externals (tileset_get (tilesets_get (sprite doc_1) 0) tj)
                               (tileset_get (tilesets_get (sprite doc_1_red_tiles) 0) tj))"
    by (simp add: tileset_examples)
  have 4: "TilesetSize doc_two_tilesets = TilesetSize doc_two_tilesets \<and>
    (\<forall>j < TilesetSize doc_two_tilesets.
       \<not> tileset_differs (tilesets_get (sprite doc_two_tilesets) j)
                         (tilesets_get (sprite doc_two_tilesets) j) \<and>
       (\<forall>tj < tileset_size (tilesets_get (sprite doc_two_tilesets) j).
          is_same_image exact_externals (tileset_get (tilesets_get (sprite doc_two_tilesets) j) tj)
                          (tileset_get (tilesets_get (sprite doc_two_tilesets) j) tj)))"
    by (simp add: tileset_differs_def exact_externals_def)
  have 5: "TilesetSize doc_two_tilesets = 2"
    by (simp add: tileset_examples)
  note a = tilesets_first_mismatch[where E = exact_externals and a = doc_1 and
      b = doc_1_no_tilesets and d = DocDiff_new, THEN conjunct1, THEN mp, OF 1]
  note b = tilesets_first_mismatch[where E = exact_externals and a = doc_two_tilesets and
      b = doc_two_tilesets_grown and d = DocDiff_new and i = 1,
      THEN conjunct2, THEN conjunct1, THEN mp, OF 2]
  note c = tilesets_first_mismatch[where E = exact_externals and a = doc_1 and
      b = doc_1_red_tiles and d = DocDiff_new and i = 0 and ti = 1,
      THEN conjunct2, THEN conjunct2, THEN conjunct1, THEN mp, OF 3]
  note d = tilesets_first_mismatch[where E = exact_externals and a = doc_two_tilesets and
      b = doc_two_tilesets and d = DocDiff_new,
      THEN conjunct2, THEN conjunct2, THEN conjunct2, THEN mp, OF 4]
  from a b c d show ?thesis
    unfolding 5 by blast
qed

text \<open>
  C9. If the numbers of frames differ, \<open>totalFrames\<close> is set and the durations are not
  scanned (\<open>frameDuration\<close> is left as it was). Otherwise the frames are scanned in
  order: the first frame \<open>f\<close> whose duration differs sets \<open>frameDuration\<close> and the loop
  is left at \<open>f\<close>; if no duration differs the loop runs to the end and the flags are
  unchanged. The result of \<open>compare_docs\<close> has \<open>totalFrames\<close> set and \<open>frameDuration\<close>
  unset in the first case, \<open>frameDuration\<close> set and \<open>totalFrames\<close> unset in the second,
  neither set in the third, and never both.
\<close>

theorem frames_first_mismatch:
  "(sprite_totalFrames (sprite a) \<noteq> sprite_totalFrames (sprite b) \<longrightarrow>
      compare_frames a b d = d\<lparr>anything := True, totalFrames := True\<rparr> \<and>
      totalFrames (compare_docs E a b) \<and> \<not> frameDuration (compare_docs E a b)) \<and>
   (sprite_totalFrames (sprite a) = sprite_totalFrames (sprite b) \<and>
    f < sprite_totalFrames (sprite a) \<and>
    sprite_frameDuration (sprite a) f \<noteq> sprite_frameDuration (sprite b) f \<and>
    (\<forall>g < f. sprite_frameDuration (sprite a) g = sprite_frameDuration (sprite b) g) \<longrightarrow>
      frames_loop a b 0 d = (f, d\<lparr>anything := True, frameDuration := True\<rparr>) \<and>
      compare_frames a b d = d\<lparr>anything := True, frameDuration := True\<rparr> \<and>
      frameDuration (compare_docs E a b) \<and> \<not> totalFrames (compare_docs E a b)) \<and>
   (sprite_totalFrames (sprite a) = sprite_totalFrames (sprite b) \<and>
    (\<forall>g < sprite_totalFrames (sprite a).
        sprite_frameDuration (sprite a) g = sprite_frameDuration (sprite b) g) \<longrightarrow>
      frames_loop a b 0 d = (sprite_totalFrames (sprite a), d) \<and>
      compare_frames a b d = d \<and>
      \<not> totalFrames (compare_docs E a b) \<and> \<not> frameDuration (compare_docs E a b)) \<and>
   \<not> (totalFrames (compare_docs E a b) \<and> frameDuration (compare_docs E a b))"
proof (intro conjI impI)
  assume h: "sprite_totalFrames (sprite a) \<noteq> sprite_totalFrames (sprite b)"
  then show "compare_frames a b d = d\<lparr>anything := True, totalFrames := True\<rparr>"
    by (simp add: compare_frames_def)
  from h show "totalFrames (compare_docs E a b)"
    by (simp add: compare_docs_totalFrames)
  from h show "\<not> frameDuration (compare_docs E a b)"
    by (simp add: compare_docs_frameDuration)
next
  assume h: "sprite_totalFrames (sprite a) = sprite_totalFrames (sprite b) \<and>
    f < sprite_totalFrames (sprite a) \<and>
    sprite_frameDuration (sprite a) f \<noteq> sprite_frameDuration (sprite b) f \<and>
    (\<forall>g < f. sprite_frameDuration (sprite a) g = sprite_frameDuration (sprite b) g)"
  then show 1: "frames_loop a b 0 d = (f, d\<lparr>anything := True, frameDuration := True\<rparr>)"
    by (intro frames_loop_break) simp_all
  from h show "compare_frames a b d = d\<lparr>anything := True, frameDuration := True\<rparr>"
    by (simp add: compare_frames_def 1)
  from h show "frameDuration (compare_docs E a b)"
    unfolding compare_docs_frameDuration by blast
  from h show "\<not> totalFrames (compare_docs E a b)"
    by (simp add: compare_docs_totalFrames)
next
  assume h: "sprite_totalFrames (sprite a) = sprite_totalFrames (sprite b) \<and>
    (\<forall>g < sprite_totalFrames (sprite a).
        sprite_frameDuration (sprite a) g = sprite_frameDuration (sprite b) g)"
  then have "frames_loop a b 0 d = (max 0 (sprite_totalFrames (sprite a)), d)"
    by (intro frames_loop_done) simp
  then show 1: "frames_loop a b 0 d = (sprite_totalFrames (sprite a), d)"
    by simp
  from h show "compare_frames a b d = d"
    by (simp add: compare_frames_def 1)
  from h show "\<not> totalFrames (compare_docs E a b)"
    by (simp add: compare_docs_totalFrames)
  from h show "\<not> frameDuration (compare_docs E a b)"
    unfolding compare_docs_frameDuration by blast
next
  show "\<not> (totalFrames (compare_docs E a b) \<and> frameDuration (compare_docs E a b))"
    by (simp add: compare_docs_totalFrames compare_docs_frameDuration)
qed

text \<open>
  Two frames against one; durations \<open>[100, 100]\<close> against \<open>[100, 200]\<close>, which differ
  at frame 1; \<open>doc_2\<close> against itself.
\<close>

theorem frames_first_mismatch_witness:
  "compare_frames doc_2 doc_1 DocDiff_new = DocDiff_new\<lparr>anything := True, totalFrames := True\<rparr> \<and>
   totalFrames (compare_docs exact_externals doc_2 doc_1) \<and>
   frames_loop doc_2 doc_2_slower 0 DocDiff_new =
     (1, DocDiff_new\<lparr>anything := True, frameDuration := True\<rparr>) \<and>
   frameDuration (compare_docs exact_externals doc_2 doc_2_slower) \<and>
   frames_loop doc_2 doc_2 0 DocDiff_new = (2, DocDiff_new) \<and>
   \<not> frameDuration (compare_docs exact_externals doc_2 doc_2)"
proof -
  have n: "sprite_totalFrames (sprite doc_2) = 2" "sprite_totalFrames (sprite doc_1) = 1"
    "sprite_totalFrames (sprite doc_2_slower) = 2"
    by (simp_all add: sprite_totalFrames_def doc_2_def doc_1_def doc_2_slower_def)
  have 1: "sprite_totalFrames (sprite doc_2) \<noteq> sprite_totalFrames (sprite doc_1)"
    by (simp add: n)
  have 2: "sprite_totalFrames (sprite doc_2) = sprite_totalFrames (sprite doc_2_slower) \<and>
    1 < sprite_totalFrames (sprite doc_2) \<and>
    sprite_frameDuration (sprite doc_2) 1 \<noteq> sprite_frameDuration (sprite doc_2_slower) 1 \<and>
    (\<forall>g < 1. sprite_frameDuration (sprite doc_2) g = sprite_frameDuration (sprite doc_2_slower) g)"
    by (simp add: n) (simp add: sprite_frameDuration_def doc_2_def doc_1_def doc_2_slower_def)
  have 3: "sprite_totalFrames (sprite doc_2) = sprite_totalFrames (sprite doc_2) \<and>
    (\<forall>g < sprite_totalFrames (sprite doc_2).
        sprite_frameDuration (sprite doc_2) g = sprite_frameDuration (sprite doc_2) g)"
    by simp
  note a = frames_first_mismatch[where E = exact_externals and a = doc_2 and b = doc_1
      and d = DocDiff_new, THEN conjunct1, THEN mp, OF 1]
  note b = frames_first_mismatch[where E = exact_externals and a = doc_2 and
      b = doc_2_slower and d = DocDiff_new and f = 1,
      THEN conjunct2, THEN conjunct1, THEN mp, OF 2]
  note c = frames_first_mismatch[where E = exact_externals and a = doc_2 and b = doc_2
      and d = DocDiff_new, THEN conjunct2, THEN conjunct2, THEN conjunct1, THEN mp, OF 3]
  from a b c show ?thesis
    unfolding n by blast
qed

text \<open>
  C10. When the two lists of palettes have different lengths and \<open>countDiff\<close> is zero on
  each pair of palettes compared (up to the length of the shorter list), the block of
  the palettes leaves the flags as they are, and \<open>compare_docs\<close> does not set
  \<open>palettes\<close>: a difference of length alone never sets it.
\<close>

theorem palettes_length_alone_not_flagged:
  assumes "length (getPalettes (sprite a)) \<noteq> length (getPalettes (sprite b))"
    and "\<forall>p \<in> set (zip (getPalettes (sprite a)) (getPalettes (sprite b))).
           countDiff E (fst p) (snd p) = 0"
  shows "compare_palettes E a b d = d \<and> \<not> palettes (compare_docs E a b)"
proof
  show 1: "compare_palettes E a b d = d" for d
    using assms(2) by (simp add: compare_palettes_eq)
  show "\<not> palettes (compare_docs E a b)"
    unfolding compare_docs_def Let_def by (simp add: block_fields 1 DocDiff_new_fields)
qed

text \<open>
  \<open>doc_1\<close> has one palette, \<open>doc_1_two_palettes\<close> has the same palette and one more.
\<close>

theorem palettes_length_alone_not_flagged_witness:
  "length (getPalettes (sprite doc_1)) = 1 \<and>
   length (getPalettes (sprite doc_1_two_palettes)) = 2 \<and>
   \<not> palettes (compare_docs exact_externals doc_1 doc_1_two_palettes)"
proof -
  have 1: "length (getPalettes (sprite doc_1)) \<noteq> length (getPalettes (sprite doc_1_two_palettes))"
    by (simp add: doc_1_def doc_1_two_palettes_def)
  have 2: "\<forall>p \<in> set (zip (getPalettes (sprite doc_1)) (getPalettes (sprite doc_1_two_palettes))).
           countDiff exact_externals (fst p) (snd p) = 0"
    by (simp add: doc_1_def doc_1_two_palettes_def exact_externals_def)
  show ?thesis
    using palettes_length_alone_not_flagged[OF 1 2, of DocDiff_new]
    by (simp add: doc_1_def doc_1_two_palettes_def)
qed

end
